theory Spec2Isabelle
  imports Complex_Main "HOL-Library.Multiset"
begin

section \<open>Training script of the DUQ classifier on CIFAR-10 (train\_duq\_cifar.py)\<close>

text \<open>
  The script is one function \<open>main\<close> with nested closures (\<open>calc_gradients_input\<close>,
  \<open>calc_gradient_penalty\<close>, \<open>step\<close>, \<open>eval_step\<close>, \<open>log_results\<close>) and an entry point
  that parses the command line. The embedding follows the script top to bottom.
  Tensor scalars are modelled as \<open>real\<close>; the numerical content of library calls
  (forward pass, loss, derivatives, optimiser update) is a parameter of the model, their
  effect on the program state and the order of the calls is explicit.
\<close>

subsection \<open>Exceptions\<close>

datatype error =
    AssertionError string
  | UnboundLocalError string
  | RuntimeError
  | ValueError
  | IndexError
  | SystemExit nat
  | EngineError

subsection \<open>Datasets and the train/validation split (lines 39--56)\<close>

text \<open>
  Modelled from the spec: the dataset provider \<open>utils.datasets.all_datasets\<close> is not part
  of the source file. Section 6 of the specification gives its interface: it returns
  the training and the test dataset, each of which "produces (input tensor, integer
  label) pairs; training dataset includes data augmentation, test dataset does not".
  A dataset therefore is its stored raw samples together with the preprocessing
  \<open>transform\<close> that the dataset itself applies whenever an item is read.
\<close>

record ('raw, 'img) dataset =
  samples :: "('raw \<times> nat) list"
  transform :: "'raw \<Rightarrow> 'img"

text \<open>
  What \<open>train_dataset\<close> and \<open>val_dataset\<close> can be bound to: the dataset object itself
  (final-model mode) or a \<open>torch.utils.data.Subset(dataset, indices)\<close>. A \<open>Subset\<close> holds a
  reference to the underlying dataset and a list of indices. Its third component is
  the instance attribute \<open>transform\<close> that line 54 assigns on the \<open>Subset\<close> object
  (\<open>None\<close> while unassigned).
\<close>

datatype ('raw, 'img) data_source =
    Whole "('raw, 'img) dataset"
  | Subset "('raw, 'img) dataset" "nat list" "('raw \<Rightarrow> 'img) option"

text \<open>\<open>len(ds)\<close>.\<close>

fun len :: "('raw, 'img) data_source \<Rightarrow> nat" where
  "len (Whole d) = length (samples d)"
| "len (Subset d indices attr) = length indices"

text \<open>
  \<open>ds[i]\<close>. The dataset applies its own \<open>transform\<close> to the stored sample.
  \<open>Subset.__getitem__\<close> is \<open>self.dataset[self.indices[idx]]\<close>: it delegates to the
  underlying dataset and reads no attribute of the \<open>Subset\<close> other than \<open>dataset\<close> and
  \<open>indices\<close>.
\<close>

definition dataset_getitem :: "('raw, 'img) dataset \<Rightarrow> nat \<Rightarrow> error + ('img \<times> nat)" where
  "dataset_getitem d i =
     (if i < length (samples d)
      then Inr (transform d (fst (samples d ! i)), snd (samples d ! i))
      else Inl IndexError)"

fun getitem :: "('raw, 'img) data_source \<Rightarrow> nat \<Rightarrow> error + ('img \<times> nat)" where
  "getitem (Whole d) i = dataset_getitem d i"
| "getitem (Subset d indices attr) i =
     (if i < length indices then dataset_getitem d (indices ! i) else Inl IndexError)"

text \<open>The indices of the underlying dataset that a data source draws from.\<close>

fun index_list :: "('raw, 'img) data_source \<Rightarrow> nat list" where
  "index_list (Whole d) = [0..<length (samples d)]"
| "index_list (Subset d indices attr) = indices"

fun underlying :: "('raw, 'img) data_source \<Rightarrow> ('raw, 'img) dataset" where
  "underlying (Whole d) = d"
| "underlying (Subset d indices attr) = d"

text \<open>
  The assignment \<open>obj.transform = t\<close>. On a dataset object it replaces the dataset's
  preprocessing; on a \<open>Subset\<close> it binds an instance attribute of the wrapper and
  leaves the wrapped dataset as it is.
\<close>

fun set_transform :: "('raw, 'img) data_source \<Rightarrow> ('raw \<Rightarrow> 'img) \<Rightarrow> ('raw, 'img) data_source" where
  "set_transform (Whole d) t = Whole (d\<lparr>transform := t\<rparr>)"
| "set_transform (Subset d indices attr) t = Subset d indices (Some t)"

text \<open>
  Lines 43--56. \<open>shuffle\<close> stands for \<open>random.shuffle\<close> (the permutation the random
  generator produces), \<open>val_size_of n\<close> for \<open>int(n * 0.8)\<close>, a double-precision product
  truncated to an integer. The slices \<open>idx[:val_size]\<close> and \<open>idx[val_size:]\<close> of a list
  with a non-negative bound are \<open>take\<close> and \<open>drop\<close>.
\<close>

definition split_datasets ::
  "(nat list \<Rightarrow> nat list) \<Rightarrow> (nat \<Rightarrow> nat) \<Rightarrow> bool \<Rightarrow>
   ('raw, 'img) dataset \<Rightarrow> ('raw, 'img) dataset \<Rightarrow>
   ('raw, 'img) data_source \<times> ('raw, 'img) data_source" where
  "split_datasets shuffle val_size_of final_model dataset test_dataset =
     (let idx = shuffle [0..<length (samples dataset)] in
      if final_model then
        let train_dataset = Whole dataset;
            val_dataset = Whole test_dataset
        in (train_dataset, val_dataset)
      else
        let val_size = val_size_of (length (samples dataset));
            train_dataset = Subset dataset (take val_size idx) None;
            val_dataset = Subset dataset (drop val_size idx) None;
            val_dataset = set_transform val_dataset (transform test_dataset)
        in (train_dataset, val_dataset))"

subsection \<open>Input tensors, model outputs and automatic differentiation\<close>

text \<open>
  An input batch on the device: its examples and the flag that \<open>x.requires_grad_(flag)\<close>
  sets (\<open>set_requires_grad\<close> below).
\<close>

record 'img tensor =
  examples :: "'img list"
  requires_grad :: bool

definition set_requires_grad :: "'img tensor \<Rightarrow> bool \<Rightarrow> 'img tensor" where
  "set_requires_grad x flag = x\<lparr>requires_grad := flag\<rparr>"

text \<open>
  The result \<open>y_pred\<close> of a forward pass: the per-class scores of every example, and
  what the recorded graph determines: whether the input was tracked when the graph
  was built, and the derivative of the summed scores with respect to the input, one
  array of the input's shape (channels, rows, columns) per example.
\<close>

record prediction =
  scores :: "real list list"
  tracks_input :: bool
  input_grad :: "real list list list list"

text \<open>
  \<open>torch.autograd.grad(outputs=y_pred, inputs=x, grad_outputs=ones_like(y_pred),
  create_graph=True)[0]\<close>. The library raises a \<open>RuntimeError\<close> when the input does not
  require gradients or is not part of the graph of the output; otherwise it returns
  the derivative.
\<close>

definition autograd_grad :: "prediction \<Rightarrow> 'img tensor \<Rightarrow> error + real list list list list" where
  "autograd_grad outputs inputs =
     (if requires_grad inputs \<and> tracks_input outputs then Inr (input_grad outputs)
      else Inl RuntimeError)"

text \<open>\<open>gradients.flatten(start_dim=1)\<close>, for one example.\<close>

definition flatten :: "real list list list \<Rightarrow> real list" where
  "flatten g = concat (map concat g)"

text \<open>Lines 76--86.\<close>

definition calc_gradients_input :: "'img tensor \<Rightarrow> prediction \<Rightarrow> error + real list list" where
  "calc_gradients_input x y_pred =
     (case autograd_grad y_pred x of
        Inl e \<Rightarrow> Inl e
      | Inr gradients \<Rightarrow>
          let gradients = map flatten gradients
          in Inr gradients)"

text \<open>\<open>v.norm(2)\<close> of one row, and \<open>t.mean()\<close> of a one-dimensional tensor. The mean of an
  empty tensor is not a number in the library; the quotient below is meaningful for a
  batch with at least one example, which is what the data loaders deliver.\<close>

definition l2_norm :: "real list \<Rightarrow> real" where
  "l2_norm v = sqrt (\<Sum>a\<leftarrow>v. a\<^sup>2)"

definition tensor_mean :: "real list \<Rightarrow> real" where
  "tensor_mean xs = sum_list xs / real (length xs)"

text \<open>Lines 88--97.\<close>

definition calc_gradient_penalty :: "'img tensor \<Rightarrow> prediction \<Rightarrow> error + real" where
  "calc_gradient_penalty x y_pred =
     (case calc_gradients_input x y_pred of
        Inl e \<Rightarrow> Inl e
      | Inr gradients \<Rightarrow>
          let grad_norm = map l2_norm gradients;
              gradient_penalty = tensor_mean (map (\<lambda>n. (n - 1)\<^sup>2) grad_norm)
          in Inr gradient_penalty)"

subsection \<open>Configuration, program state and observable events\<close>

text \<open>The keyword arguments of \<open>main\<close> (lines 23--36). The number of epochs is a natural
  number: a negative \<open>--epochs\<close> is outside the model.\<close>

record config =
  architecture :: string
  batch_size :: int
  epochs :: nat
  length_scale :: real
  centroid_size :: int
  model_output_size :: int
  learning_rate :: real
  l_gradient_penalty :: real
  gamma :: real
  weight_decay :: real
  final_model :: bool
  output_dir :: string

datatype model_class = WideResNet | resnet18

text \<open>
  What the program does to the outside world and to its collaborators, in the order
  in which it happens. The number carried by \<open>GetCifarSvhnOod\<close> and
  \<open>GetAurocClassification\<close> is \<open>trainer.state.epoch\<close> at the time of the call;
  \<open>UsageError\<close> is the parser's usage message on the error stream, with the rejected
  value; \<open>Forward\<close> carries the mode of the model (\<open>True\<close> for training mode);
  \<open>UpdateEmbeddings\<close> carries whether gradient mode was enabled and whether the input
  was tracking gradients when the centroids were updated.
\<close>

datatype event =
    UsageError string
  | PrintArgs
  | Mkdir string
  | SummaryWriterOpened string
  | DatasetsLoaded
  | ModelCreated model_class
  | EpochStarted nat
  | ZeroGrad
  | Forward bool
  | Backward
  | OptimizerStep
  | UpdateEmbeddings bool bool
  | PrintTrain nat real real real
  | AddScalar string real nat
  | GetCifarSvhnOod nat
  | PrintOodTest real real
  | GetAurocClassification nat
  | PrintAuroc real
  | EvaluatorRun
  | PrintValid nat real real real real
  | SchedulerStep
  | PrintTest real
  | SaveModel string
  | WriterClosed

text \<open>
  The numerical substrate: what the library and the model classes compute. The
  script only composes these operations, so they are parameters of the embedding.
  \<open>'p\<close> are the learnable parameters of the model, \<open>'c\<close> the centroid state kept by
  exponential moving average, \<open>'o\<close> the momentum buffers of the optimizer, \<open>'g\<close>
  parameter gradients.
  \<^item> \<open>new_model\<close>: \<open>ResNet_DUQ(model_class, num_classes, centroid_size,
    model_output_size, length_scale, gamma)\<close>;
  \<^item> \<open>forward\<close>, \<open>input_derivative\<close>: the scores \<open>model(x)\<close> in the given mode and the
    derivative of their sum with respect to the input;
  \<^item> \<open>one_hot\<close>: \<open>F.one_hot(y, num_classes).float()\<close>;
  \<^item> \<open>binary_cross_entropy\<close>: \<open>F.binary_cross_entropy(y_pred, y, reduction="mean")\<close>;
  \<^item> \<open>loss_gradient\<close>: the gradient with respect to the parameters of
    \<open>bce + l_gradient_penalty * gp\<close>, which \<open>loss.backward()\<close> adds to the stored
    gradients by \<open>accumulate\<close>;
  \<^item> \<open>sgd\<close>: one update of \<open>torch.optim.SGD\<close> with momentum 0.9 at the given learning
    rate and weight decay;
  \<^item> \<open>update_embeddings\<close>: \<open>model.update_embeddings(x, y)\<close>;
  \<^item> \<open>argmax_accuracy\<close>: \<open>(torch.argmax(y_pred, 1) == y).float().mean()\<close>;
  \<^item> \<open>average\<close>: the value of an \<open>ignite.metrics.Average\<close> over the outputs of a run;
  \<^item> \<open>get_cifar_svhn_ood\<close>, \<open>get_auroc_classification\<close>: the evaluation utilities of
    \<open>utils.evaluate_ood\<close>, each returning (accuracy, AUROC).
  The class \<open>ResNet_DUQ\<close> and the utilities of \<open>utils.evaluate_ood\<close> belong to the
  repository but not to this source file; like the library functions they are
  taken as parameters.
\<close>

record ('raw, 'img, 'p, 'o, 'c, 'g) substrate =
  new_model :: "model_class \<Rightarrow> nat \<Rightarrow> int \<Rightarrow> int \<Rightarrow> real \<Rightarrow> real \<Rightarrow> 'p \<times> 'c"
  new_momentum :: 'o
  forward :: "'p \<Rightarrow> 'c \<Rightarrow> bool \<Rightarrow> 'img list \<Rightarrow> real list list"
  input_derivative :: "'p \<Rightarrow> 'c \<Rightarrow> bool \<Rightarrow> 'img list \<Rightarrow> real list list list list"
  one_hot :: "nat list \<Rightarrow> nat \<Rightarrow> real list list"
  binary_cross_entropy :: "real list list \<Rightarrow> real list list \<Rightarrow> real"
  loss_gradient :: "'p \<Rightarrow> 'c \<Rightarrow> 'img list \<Rightarrow> real list list \<Rightarrow> real \<Rightarrow> 'g"
  accumulate :: "'g option \<Rightarrow> 'g \<Rightarrow> 'g"
  sgd :: "real \<Rightarrow> real \<Rightarrow> 'p \<Rightarrow> 'o \<Rightarrow> 'g option \<Rightarrow> 'p \<times> 'o"
  update_embeddings :: "'p \<Rightarrow> 'c \<Rightarrow> bool \<Rightarrow> 'img list \<Rightarrow> real list list \<Rightarrow> 'c"
  argmax_accuracy :: "real list list \<Rightarrow> nat list \<Rightarrow> real"
  average :: "real list \<Rightarrow> real"
  get_cifar_svhn_ood :: "'p \<Rightarrow> 'c \<Rightarrow> real \<times> real"
  get_auroc_classification :: "('raw, 'img) data_source \<Rightarrow> 'p \<Rightarrow> 'c \<Rightarrow> real \<times> real"

text \<open>
  The mutable state of a run: the model (parameters, centroid state, mode), the
  optimizer (stored gradients, momentum buffers, learning rate), the scheduler's
  epoch counter, the global gradient mode, and the events so far.
\<close>

record ('p, 'o, 'c, 'g) world =
  params :: 'p
  momentum :: 'o
  centroids :: 'c
  grads :: "'g option"
  training :: bool
  grad_enabled :: bool
  lr :: real
  last_epoch :: nat
  trace :: "event list"

definition emit :: "event list \<Rightarrow> ('p, 'o, 'c, 'g) world \<Rightarrow> ('p, 'o, 'c, 'g) world" where
  "emit evs w = w\<lparr>trace := trace w @ evs\<rparr>"

subsection \<open>The operations the step functions call\<close>

text \<open>\<open>model.train()\<close> and \<open>model.eval()\<close>.\<close>

definition model_train :: "('p, 'o, 'c, 'g) world \<Rightarrow> ('p, 'o, 'c, 'g) world" where
  "model_train w = w\<lparr>training := True\<rparr>"

definition model_eval :: "('p, 'o, 'c, 'g) world \<Rightarrow> ('p, 'o, 'c, 'g) world" where
  "model_eval w = w\<lparr>training := False\<rparr>"

text \<open>\<open>optimizer.zero_grad()\<close>.\<close>

definition optimizer_zero_grad :: "('p, 'o, 'c, 'g) world \<Rightarrow> ('p, 'o, 'c, 'g) world" where
  "optimizer_zero_grad w = emit [ZeroGrad] (w\<lparr>grads := None\<rparr>)"

text \<open>\<open>x.cuda()\<close> on the images of a batch delivered by a data loader: a tensor on the
  device that does not track gradients.\<close>

definition cuda :: "'img list \<Rightarrow> 'img tensor" where
  "cuda imgs = \<lparr>examples = imgs, requires_grad = False\<rparr>"

text \<open>\<open>model(x)\<close>. The graph of the result contains the input exactly when gradient
  mode is enabled and the input requires gradients at the time of the call.\<close>

definition model_call ::
  "('raw, 'img, 'p, 'o, 'c, 'g) substrate \<Rightarrow> 'img tensor \<Rightarrow> ('p, 'o, 'c, 'g) world \<Rightarrow>
   prediction \<times> ('p, 'o, 'c, 'g) world" where
  "model_call S x w =
     (\<lparr>scores = forward S (params w) (centroids w) (training w) (examples x),
       tracks_input = (grad_enabled w \<and> requires_grad x),
       input_grad = input_derivative S (params w) (centroids w) (training w) (examples x)\<rparr>,
      emit [Forward (training w)] w)"

text \<open>\<open>loss.backward()\<close> for the composite loss of the batch.\<close>

definition loss_backward ::
  "('raw, 'img, 'p, 'o, 'c, 'g) substrate \<Rightarrow> 'img tensor \<Rightarrow> real list list \<Rightarrow> real \<Rightarrow>
   ('p, 'o, 'c, 'g) world \<Rightarrow> ('p, 'o, 'c, 'g) world" where
  "loss_backward S x y l w =
     emit [Backward]
       (w\<lparr>grads := Some (accumulate S (grads w)
                  (loss_gradient S (params w) (centroids w) (examples x) y l))\<rparr>)"

text \<open>\<open>optimizer.step()\<close>: the only operation that writes the parameters and the
  momentum buffers.\<close>

definition optimizer_step ::
  "('raw, 'img, 'p, 'o, 'c, 'g) substrate \<Rightarrow> config \<Rightarrow> ('p, 'o, 'c, 'g) world \<Rightarrow>
   ('p, 'o, 'c, 'g) world" where
  "optimizer_step S cfg w =
     (let (p, buf) = sgd S (lr w) (weight_decay cfg) (params w) (momentum w) (grads w)
      in emit [OptimizerStep] (w\<lparr>params := p, momentum := buf\<rparr>))"

text \<open>\<open>with torch.no_grad(): body\<close>: gradient mode is off inside the block and restored
  afterwards.\<close>

definition no_grad ::
  "(('p, 'o, 'c, 'g) world \<Rightarrow> ('p, 'o, 'c, 'g) world) \<Rightarrow> ('p, 'o, 'c, 'g) world \<Rightarrow>
   ('p, 'o, 'c, 'g) world" where
  "no_grad body w =
     (let prev = grad_enabled w;
          w = body (w\<lparr>grad_enabled := False\<rparr>)
      in w\<lparr>grad_enabled := prev\<rparr>)"

text \<open>\<open>model.update_embeddings(x, y)\<close>: the only operation that writes the centroid
  state.\<close>

definition model_update_embeddings ::
  "('raw, 'img, 'p, 'o, 'c, 'g) substrate \<Rightarrow> 'img tensor \<Rightarrow> real list list \<Rightarrow>
   ('p, 'o, 'c, 'g) world \<Rightarrow> ('p, 'o, 'c, 'g) world" where
  "model_update_embeddings S x y w =
     emit [UpdateEmbeddings (grad_enabled w) (requires_grad x)]
       (w\<lparr>centroids := update_embeddings S (params w) (centroids w) (training w) (examples x) y\<rparr>)"

subsection \<open>The step functions (lines 99--146)\<close>

definition step ::
  "('raw, 'img, 'p, 'o, 'c, 'g) substrate \<Rightarrow> config \<Rightarrow> nat \<Rightarrow> 'img list \<times> nat list \<Rightarrow>
   ('p, 'o, 'c, 'g) world \<Rightarrow> (error + real \<times> real \<times> real) \<times> ('p, 'o, 'c, 'g) world" where
  "step S cfg num_classes batch w =
     (let w = model_train w;
          w = optimizer_zero_grad w;
          (x, y) = batch;
          x = cuda x;
          x = set_requires_grad x True;
          (y_pred, w) = model_call S x w;
          y = one_hot S y num_classes;
          bce = binary_cross_entropy S (scores y_pred) y
      in case calc_gradient_penalty x y_pred of
           Inl e \<Rightarrow> (Inl e, w)
         | Inr gp \<Rightarrow>
             let loss = bce + l_gradient_penalty cfg * gp;
                 w = loss_backward S x y (l_gradient_penalty cfg) w;
                 w = optimizer_step S cfg w;
                 x = set_requires_grad x False;
                 w = no_grad (\<lambda>w. model_update_embeddings S x y (model_eval w)) w
             in (Inr (loss, bce, gp), w))"

definition eval_step ::
  "('raw, 'img, 'p, 'o, 'c, 'g) substrate \<Rightarrow> nat \<Rightarrow> 'img list \<times> nat list \<Rightarrow>
   ('p, 'o, 'c, 'g) world \<Rightarrow> (error + real \<times> real \<times> real) \<times> ('p, 'o, 'c, 'g) world" where
  "eval_step S num_classes batch w =
     (let w = model_eval w;
          (x, y) = batch;
          x = cuda x;
          x = set_requires_grad x True;
          (y_pred, w) = model_call S x w;
          acc = argmax_accuracy S (scores y_pred) y;
          y = one_hot S y num_classes;
          bce = binary_cross_entropy S (scores y_pred) y
      in case calc_gradient_penalty x y_pred of
           Inl e \<Rightarrow> (Inl e, w)
         | Inr gp \<Rightarrow> (Inr (acc, bce, gp), w))"

subsection \<open>Data loaders (lines 170--184)\<close>

text \<open>
  \<open>torch.utils.data.DataLoader(dataset, batch_size=..., shuffle=..., drop_last=...)\<close>.
  The constructor first builds the sampler: with \<open>shuffle=True\<close> a random sampler,
  which rejects an empty dataset with a \<open>ValueError\<close> (a sequential sampler accepts
  one). Then it builds the batch sampler, which rejects a batch size that is not
  positive with a \<open>ValueError\<close>.
\<close>

record ('raw, 'img) data_loader =
  ld_dataset :: "('raw, 'img) data_source"
  ld_batch_size :: nat
  ld_shuffle :: bool
  ld_drop_last :: bool

definition DataLoader ::
  "('raw, 'img) data_source \<Rightarrow> int \<Rightarrow> bool \<Rightarrow> bool \<Rightarrow> error + ('raw, 'img) data_loader" where
  "DataLoader ds bs shuffle drop_last =
     (if shuffle \<and> len ds = 0 then Inl ValueError
      else if bs \<le> 0 then Inl ValueError
      else Inr \<lparr>ld_dataset = ds, ld_batch_size = nat bs, ld_shuffle = shuffle,
                ld_drop_last = drop_last\<rparr>)"

text \<open>
  The loop of the batch sampler: indices are appended to the pending batch, a batch
  is yielded when it is full, and what is pending at the end is yielded only if
  \<open>drop_last\<close> is off.
\<close>

fun batch_sampler :: "nat \<Rightarrow> bool \<Rightarrow> nat list \<Rightarrow> nat list \<Rightarrow> nat list list" where
  "batch_sampler bs drop_last batch [] = (if batch \<noteq> [] \<and> \<not> drop_last then [batch] else [])"
| "batch_sampler bs drop_last batch (i # rest) =
     (let batch = batch @ [i]
      in if length batch = bs then batch # batch_sampler bs drop_last [] rest
         else batch_sampler bs drop_last batch rest)"

text \<open>
  The batches of indices of one pass over a loader. \<open>order\<close> is the permutation a
  random sampler draws for this pass; a loader with \<open>shuffle=False\<close> reads in order.
\<close>

definition loader_indices :: "(nat list \<Rightarrow> nat list) \<Rightarrow> ('raw, 'img) data_loader \<Rightarrow> nat list list" where
  "loader_indices order ld =
     batch_sampler (ld_batch_size ld) (ld_drop_last ld) []
       (if ld_shuffle ld then order [0..<len (ld_dataset ld)] else [0..<len (ld_dataset ld)])"

text \<open>Collating the items of a batch into (inputs, labels); a failed read propagates.\<close>

fun collate :: "(error + 'img \<times> nat) list \<Rightarrow> error + 'img list \<times> nat list" where
  "collate [] = Inr ([], [])"
| "collate (Inl e # rest) = Inl e"
| "collate (Inr (img, label) # rest) =
     (case collate rest of
        Inl e \<Rightarrow> Inl e
      | Inr (imgs, labels) \<Rightarrow> Inr (img # imgs, label # labels))"

subsection \<open>Engines\<close>

text \<open>
  \<open>ignite.engine.Engine\<close>, as section 4.5 of the specification describes it: one pass
  fetches batch after batch, calls the process function on each, and collects its
  outputs for the attached averages; an exception ends the run. A pass over a
  loader that yields no batch is rejected (by the engine, or by the averages, which
  cannot be computed from no output): \<open>EngineError\<close>.
\<close>

fun run_batches ::
  "('img list \<times> nat list \<Rightarrow> 'w \<Rightarrow> (error + 'out) \<times> 'w) \<Rightarrow> ('raw, 'img) data_source \<Rightarrow>
   nat list list \<Rightarrow> 'w \<Rightarrow> (error + 'out list) \<times> 'w" where
  "run_batches process ds [] w = (Inr [], w)"
| "run_batches process ds (indices # rest) w =
     (case collate (map (getitem ds) indices) of
        Inl e \<Rightarrow> (Inl e, w)
      | Inr batch \<Rightarrow>
          (case process batch w of
             (Inl e, w) \<Rightarrow> (Inl e, w)
           | (Inr out, w) \<Rightarrow>
               (case run_batches process ds rest w of
                  (Inl e, w) \<Rightarrow> (Inl e, w)
                | (Inr outs, w) \<Rightarrow> (Inr (out # outs), w))))"

text \<open>
  \<open>evaluator.run(loader)\<close> with the three averages attached in lines 154--163; the
  result is (accuracy, bce, gradient_penalty) of \<open>evaluator.state.metrics\<close>.
\<close>

definition evaluator_run ::
  "('raw, 'img, 'p, 'o, 'c, 'g) substrate \<Rightarrow> nat \<Rightarrow> ('raw, 'img) data_loader \<Rightarrow>
   ('p, 'o, 'c, 'g) world \<Rightarrow> (error + real \<times> real \<times> real) \<times> ('p, 'o, 'c, 'g) world" where
  "evaluator_run S num_classes loader w =
     (let w = emit [EvaluatorRun] w;
          batches = loader_indices (\<lambda>xs. xs) loader
      in if batches = [] then (Inl EngineError, w)
         else
           (case run_batches (eval_step S num_classes) (ld_dataset loader) batches w of
              (Inl e, w) \<Rightarrow> (Inl e, w)
            | (Inr outs, w) \<Rightarrow>
                (Inr (average S (map (\<lambda>x. fst x) outs),
                      average S (map (\<lambda>x. fst (snd x)) outs),
                      average S (map (\<lambda>x. snd (snd x)) outs)), w)))"

subsection \<open>The epoch hook (lines 186--233)\<close>

text \<open>\<open>scheduler.step()\<close> of \<open>MultiStepLR(optimizer, milestones=[60, 120, 160], gamma=0.2)\<close>.\<close>

definition scheduler_step :: "('p, 'o, 'c, 'g) world \<Rightarrow> ('p, 'o, 'c, 'g) world" where
  "scheduler_step w =
     (let epoch = last_epoch w + 1
      in emit [SchedulerStep]
           (w\<lparr>last_epoch := epoch,
              lr := (if epoch \<in> set [60, 120, 160] then lr w * (2 / 10) else lr w)\<rparr>))"

text \<open>
  \<open>metrics\<close> is (loss, bce, gradient_penalty) of \<open>trainer.state.metrics\<close> and \<open>epoch\<close> is
  \<open>trainer.state.epoch\<close>.
\<close>

definition log_results ::
  "('raw, 'img, 'p, 'o, 'c, 'g) substrate \<Rightarrow> config \<Rightarrow> nat \<Rightarrow> ('raw, 'img) data_source \<Rightarrow>
   ('raw, 'img) data_loader \<Rightarrow> nat \<Rightarrow> real \<times> real \<times> real \<Rightarrow>
   ('p, 'o, 'c, 'g) world \<Rightarrow> (error + unit) \<times> ('p, 'o, 'c, 'g) world" where
  "log_results S cfg num_classes val_dataset val_loader epoch metrics w =
     (let (loss, bce, GP) = metrics;
          w = emit [PrintTrain epoch loss bce GP] w;
          w = emit [AddScalar ''Loss/train'' loss epoch] w;
          w = (if epoch > 195 then
                 let (accuracy, auroc) = get_cifar_svhn_ood S (params w) (centroids w);
                     w = emit [GetCifarSvhnOod epoch, PrintOodTest accuracy auroc,
                               AddScalar ''OoD/test_accuracy'' accuracy epoch,
                               AddScalar ''OoD/roc_auc'' auroc epoch] w;
                     (accuracy, auroc) =
                        get_auroc_classification S val_dataset (params w) (centroids w);
                     w = emit [GetAurocClassification epoch, PrintAuroc auroc,
                               AddScalar ''OoD/val_accuracy'' accuracy epoch,
                               AddScalar ''OoD/roc_auc_classification'' auroc epoch] w
                 in w
               else w)
      in case evaluator_run S num_classes val_loader w of
           (Inl e, w) \<Rightarrow> (Inl e, w)
         | (Inr (acc, bce, GP), w) \<Rightarrow>
             let loss = bce + l_gradient_penalty cfg * GP;
                 w = emit [PrintValid epoch acc loss bce GP] w;
                 w = emit [AddScalar ''Loss/valid'' loss epoch,
                           AddScalar ''BCE/valid'' bce epoch,
                           AddScalar ''GP/valid'' GP epoch,
                           AddScalar ''Accuracy/valid'' acc epoch] w;
                 w = scheduler_step w
             in (Inr (), w))"

text \<open>
  \<open>trainer.run(train_loader, max_epochs=epochs)\<close>: for every epoch, counted from 1,
  one pass over the training loader (reshuffled for each pass by \<open>sampler\<close>), the
  averages (loss, bce, gradient_penalty) of lines 151--162 over the outputs of the
  pass, and then the handler registered for the completion of the epoch.
\<close>

fun trainer_epochs ::
  "('raw, 'img, 'p, 'o, 'c, 'g) substrate \<Rightarrow> config \<Rightarrow> nat \<Rightarrow> (nat \<Rightarrow> nat list \<Rightarrow> nat list) \<Rightarrow>
   ('raw, 'img) data_loader \<Rightarrow>
   (nat \<Rightarrow> real \<times> real \<times> real \<Rightarrow> ('p, 'o, 'c, 'g) world \<Rightarrow> (error + unit) \<times> ('p, 'o, 'c, 'g) world) \<Rightarrow>
   nat list \<Rightarrow> ('p, 'o, 'c, 'g) world \<Rightarrow> (error + unit) \<times> ('p, 'o, 'c, 'g) world" where
  "trainer_epochs S cfg num_classes sampler train_loader handler [] w = (Inr (), w)"
| "trainer_epochs S cfg num_classes sampler train_loader handler (epoch # rest) w =
     (let batches = loader_indices (sampler epoch) train_loader
      in if batches = [] then (Inl EngineError, w)
         else
           (case run_batches (step S cfg num_classes) (ld_dataset train_loader) batches
                   (emit [EpochStarted epoch] w) of
              (Inl e, w) \<Rightarrow> (Inl e, w)
            | (Inr outs, w) \<Rightarrow>
                let metrics = (average S (map (\<lambda>x. fst x) outs),
                               average S (map (\<lambda>x. fst (snd x)) outs),
                               average S (map (\<lambda>x. snd (snd x)) outs))
                in (case handler epoch metrics w of
                      (Inl e, w) \<Rightarrow> (Inl e, w)
                    | (Inr u, w) \<Rightarrow>
                        trainer_epochs S cfg num_classes sampler train_loader handler rest w)))"

definition trainer_run ::
  "('raw, 'img, 'p, 'o, 'c, 'g) substrate \<Rightarrow> config \<Rightarrow> nat \<Rightarrow> (nat \<Rightarrow> nat list \<Rightarrow> nat list) \<Rightarrow>
   ('raw, 'img) data_loader \<Rightarrow>
   (nat \<Rightarrow> real \<times> real \<times> real \<Rightarrow> ('p, 'o, 'c, 'g) world \<Rightarrow> (error + unit) \<times> ('p, 'o, 'c, 'g) world) \<Rightarrow>
   nat \<Rightarrow> ('p, 'o, 'c, 'g) world \<Rightarrow> (error + unit) \<times> ('p, 'o, 'c, 'g) world" where
  "trainer_run S cfg num_classes sampler train_loader handler max_epochs w =
     trainer_epochs S cfg num_classes sampler train_loader handler [1..<Suc max_epochs] w"

subsection \<open>The function main (lines 23--242)\<close>

text \<open>
  What the first part of \<open>main\<close> (lines 37--184) leaves for the second (lines 235--242):
  the class count, the validation split, the three loaders and the state with the
  freshly built model, optimizer and scheduler.
\<close>

record ('raw, 'img, 'p, 'o, 'c, 'g) resources =
  r_num_classes :: nat
  r_val_dataset :: "('raw, 'img) data_source"
  r_train_loader :: "('raw, 'img) data_loader"
  r_val_loader :: "('raw, 'img) data_loader"
  r_test_loader :: "('raw, 'img) data_loader"
  r_world :: "('p, 'o, 'c, 'g) world"

text \<open>
  Lines 37--184. \<open>ds\<close> is what \<open>all_datasets["CIFAR10"]()\<close> returns, \<open>events\<close> what has
  happened before the call. A failure returns the exception and the events up to it.
  When \<open>architecture\<close> is neither string, no branch of lines 58--61 binds
  \<open>model_class\<close> and its use in line 63 raises \<open>UnboundLocalError\<close>. A new module is in
  training mode; gradient mode is enabled; the scheduler starts at epoch 0 with the
  configured learning rate.
\<close>

definition main_setup ::
  "('raw, 'img, 'p, 'o, 'c, 'g) substrate \<Rightarrow> (nat list \<Rightarrow> nat list) \<Rightarrow> (nat \<Rightarrow> nat) \<Rightarrow>
   nat \<times> nat \<times> ('raw, 'img) dataset \<times> ('raw, 'img) dataset \<Rightarrow> config \<Rightarrow> event list \<Rightarrow>
   error \<times> event list + ('raw, 'img, 'p, 'o, 'c, 'g) resources" where
  "main_setup S shuffle val_size_of ds cfg events =
     (let events = events @ [SummaryWriterOpened (output_dir cfg)];
          (input_size, num_classes, dataset, test_dataset) = ds;
          events = events @ [DatasetsLoaded];
          (train_dataset, val_dataset) =
             split_datasets shuffle val_size_of (final_model cfg) dataset test_dataset;
          model_class =
            (if architecture cfg = ''WRN'' then Some WideResNet
             else if architecture cfg = ''ResNet18'' then Some resnet18
             else None)
      in case model_class of
           None \<Rightarrow> Inl (UnboundLocalError ''model_class'', events)
         | Some model_class \<Rightarrow>
             let (p, c) = new_model S model_class num_classes (centroid_size cfg)
                            (model_output_size cfg) (length_scale cfg) (gamma cfg);
                 events = events @ [ModelCreated model_class];
                 w = \<lparr>params = p, momentum = new_momentum S, centroids = c, grads = None,
                      training = True, grad_enabled = True, lr = learning_rate cfg,
                      last_epoch = 0, trace = events\<rparr>
             in (case DataLoader train_dataset (batch_size cfg) True True of
                   Inl e \<Rightarrow> Inl (e, events)
                 | Inr train_loader \<Rightarrow>
                     let test_batch_size = 200
                     in if len val_dataset mod nat test_batch_size \<noteq> 0
                        then Inl (AssertionError ''incorrect result averaging'', events)
                        else if len (Whole test_dataset) mod nat test_batch_size \<noteq> 0
                        then Inl (AssertionError ''incorrect result averaging'', events)
                        else
                          (case DataLoader val_dataset test_batch_size False False of
                             Inl e \<Rightarrow> Inl (e, events)
                           | Inr val_loader \<Rightarrow>
                               (case DataLoader (Whole test_dataset) test_batch_size False False of
                                  Inl e \<Rightarrow> Inl (e, events)
                                | Inr test_loader \<Rightarrow>
                                    Inr \<lparr>r_num_classes = num_classes,
                                         r_val_dataset = val_dataset,
                                         r_train_loader = train_loader,
                                         r_val_loader = val_loader,
                                         r_test_loader = test_loader,
                                         r_world = w\<rparr>))))"

text \<open>
  The whole of \<open>main\<close>: the set-up, the training run with \<open>log_results\<close> as the handler
  of epoch completion, the evaluation on the test loader, and the final output.
\<close>

definition main ::
  "('raw, 'img, 'p, 'o, 'c, 'g) substrate \<Rightarrow> (nat list \<Rightarrow> nat list) \<Rightarrow> (nat \<Rightarrow> nat) \<Rightarrow>
   (nat \<Rightarrow> nat list \<Rightarrow> nat list) \<Rightarrow>
   nat \<times> nat \<times> ('raw, 'img) dataset \<times> ('raw, 'img) dataset \<Rightarrow> config \<Rightarrow> event list \<Rightarrow>
   (error + unit) \<times> event list" where
  "main S shuffle val_size_of sampler ds cfg events =
     (case main_setup S shuffle val_size_of ds cfg events of
        Inl (e, events) \<Rightarrow> (Inl e, events)
      | Inr r \<Rightarrow>
          (case trainer_run S cfg (r_num_classes r) sampler (r_train_loader r)
                  (log_results S cfg (r_num_classes r) (r_val_dataset r) (r_val_loader r))
                  (epochs cfg) (r_world r) of
             (Inl e, w) \<Rightarrow> (Inl e, trace w)
           | (Inr u, w) \<Rightarrow>
               (case evaluator_run S (r_num_classes r) (r_test_loader r) w of
                  (Inl e, w) \<Rightarrow> (Inl e, trace w)
                | (Inr (acc, bce, GP), w) \<Rightarrow>
                    let w = emit [PrintTest acc] w;
                        w = emit [SaveModel (''runs/'' @ output_dir cfg @ ''/model.pt'')] w;
                        w = emit [WriterClosed] w
                    in (Inr (), trace w))))"

subsection \<open>The entry point (lines 245--334)\<close>

text \<open>
  The command line after the parser has split it: for every option the value given,
  if any, already converted by the option's \<open>type\<close>.
\<close>

record args =
  arg_architecture :: "string option"
  arg_epochs :: "nat option"
  arg_batch_size :: "int option"
  arg_centroid_size :: "int option"
  arg_model_output_size :: "int option"
  arg_learning_rate :: "real option"
  arg_l_gradient_penalty :: "real option"
  arg_gamma :: "real option"
  arg_length_scale :: "real option"
  arg_weight_decay :: "real option"
  arg_output_dir :: "string option"
  arg_final_model :: bool

definition or_default :: "'a option \<Rightarrow> 'a \<Rightarrow> 'a" where
  "or_default given d = (case given of None \<Rightarrow> d | Some v \<Rightarrow> v)"

text \<open>
  \<open>parser.parse_args()\<close> with the options of lines 248--326. A value for
  \<open>--architecture\<close> outside \<open>choices\<close> makes the parser print its usage message and the
  error and exit with status 2.
\<close>

definition parse_args :: "args \<Rightarrow> error + config" where
  "parse_args a =
     (if (case arg_architecture a of None \<Rightarrow> False | Some s \<Rightarrow> s \<notin> set [''ResNet18'', ''WRN''])
      then Inl (SystemExit 2)
      else Inr \<lparr>architecture = or_default (arg_architecture a) ''ResNet18'',
                batch_size = or_default (arg_batch_size a) 128,
                epochs = or_default (arg_epochs a) 200,
                length_scale = or_default (arg_length_scale a) (1 / 10),
                centroid_size = or_default (arg_centroid_size a) 512,
                model_output_size = or_default (arg_model_output_size a) 512,
                learning_rate = or_default (arg_learning_rate a) (5 / 100),
                l_gradient_penalty = or_default (arg_l_gradient_penalty a) (5 / 10),
                gamma = or_default (arg_gamma a) (999 / 1000),
                weight_decay = or_default (arg_weight_decay a) (5 / 10000),
                final_model = arg_final_model a,
                output_dir = or_default (arg_output_dir a) ''results''\<rparr>)"

definition program ::
  "('raw, 'img, 'p, 'o, 'c, 'g) substrate \<Rightarrow> (nat list \<Rightarrow> nat list) \<Rightarrow> (nat \<Rightarrow> nat) \<Rightarrow>
   (nat \<Rightarrow> nat list \<Rightarrow> nat list) \<Rightarrow>
   nat \<times> nat \<times> ('raw, 'img) dataset \<times> ('raw, 'img) dataset \<Rightarrow> args \<Rightarrow>
   (error + unit) \<times> event list" where
  "program S shuffle val_size_of sampler ds a =
     (case parse_args a of
        Inl e \<Rightarrow> (Inl e, [UsageError (or_default (arg_architecture a) [])])
      | Inr kwargs \<Rightarrow>
          let events = [PrintArgs];
              events = events @ [Mkdir (''runs/'' @ output_dir kwargs)]
          in main S shuffle val_size_of sampler ds kwargs events)"

section \<open>Notions used to state the properties\<close>

text \<open>The gradient penalty as a function of the input gradients of a batch.\<close>

definition penalty_of :: "real list list list list \<Rightarrow> real" where
  "penalty_of gradients = tensor_mean (map (\<lambda>g. (l2_norm (flatten g) - 1)\<^sup>2) gradients)"

text \<open>Every index a data source holds points into its underlying dataset.\<close>

definition valid_source :: "('raw, 'img) data_source \<Rightarrow> bool" where
  "valid_source ds \<longleftrightarrow> (\<forall>i\<in>set (index_list ds). i < length (samples (underlying ds)))"

text \<open>
  The events that the step functions and the evaluator emit, and the epochs at
  which the two out-of-distribution utilities were called according to a trace.
\<close>

fun is_step_event :: "event \<Rightarrow> bool" where
  "is_step_event ZeroGrad = True"
| "is_step_event (Forward t) = True"
| "is_step_event Backward = True"
| "is_step_event OptimizerStep = True"
| "is_step_event (UpdateEmbeddings g r) = True"
| "is_step_event EvaluatorRun = True"
| "is_step_event _ = False"

fun ood_call :: "event \<Rightarrow> nat list" where
  "ood_call (GetCifarSvhnOod epoch) = [epoch]"
| "ood_call _ = []"

fun auroc_call :: "event \<Rightarrow> nat list" where
  "auroc_call (GetAurocClassification epoch) = [epoch]"
| "auroc_call _ = []"

definition ood_epochs :: "event list \<Rightarrow> nat list" where
  "ood_epochs evs = concat (map ood_call evs)"

definition auroc_epochs :: "event list \<Rightarrow> nat list" where
  "auroc_epochs evs = concat (map auroc_call evs)"

text \<open>Two states that differ at most in the mode of the model and in the trace.\<close>

definition same_model :: "('p, 'o, 'c, 'g) world \<Rightarrow> ('p, 'o, 'c, 'g) world \<Rightarrow> bool" where
  "same_model w v \<longleftrightarrow>
     params v = params w \<and> momentum v = momentum w \<and> centroids v = centroids w \<and>
     grads v = grads w \<and> grad_enabled v = grad_enabled w \<and> lr v = lr w \<and>
     last_epoch v = last_epoch w"

text \<open>The events of lines 200--209 at the given epoch, for the model in state \<open>w\<close>.\<close>

definition ood_branch_events ::
  "('raw, 'img, 'p, 'o, 'c, 'g) substrate \<Rightarrow> ('raw, 'img) data_source \<Rightarrow> nat \<Rightarrow>
   ('p, 'o, 'c, 'g) world \<Rightarrow> event list" where
  "ood_branch_events S val_dataset epoch w =
     (if epoch > 195 then
        [GetCifarSvhnOod epoch,
         PrintOodTest (fst (get_cifar_svhn_ood S (params w) (centroids w)))
                      (snd (get_cifar_svhn_ood S (params w) (centroids w))),
         AddScalar ''OoD/test_accuracy'' (fst (get_cifar_svhn_ood S (params w) (centroids w))) epoch,
         AddScalar ''OoD/roc_auc'' (snd (get_cifar_svhn_ood S (params w) (centroids w))) epoch,
         GetAurocClassification epoch,
         PrintAuroc (snd (get_auroc_classification S val_dataset (params w) (centroids w))),
         AddScalar ''OoD/val_accuracy''
           (fst (get_auroc_classification S val_dataset (params w) (centroids w))) epoch,
         AddScalar ''OoD/roc_auc_classification''
           (snd (get_auroc_classification S val_dataset (params w) (centroids w))) epoch]
      else [])"

text \<open>
  What the hook logs after the evaluator has returned the averages \<open>m\<close> (lines 213--231),
  and what it does before it runs the evaluator (lines 188--209).
\<close>

definition validation_events :: "config \<Rightarrow> nat \<Rightarrow> real \<times> real \<times> real \<Rightarrow> event list" where
  "validation_events cfg epoch m =
     (let (acc, bce, GP) = m; loss = bce + l_gradient_penalty cfg * GP
      in [PrintValid epoch acc loss bce GP,
          AddScalar ''Loss/valid'' loss epoch,
          AddScalar ''BCE/valid'' bce epoch,
          AddScalar ''GP/valid'' GP epoch,
          AddScalar ''Accuracy/valid'' acc epoch])"

definition training_events ::
  "('raw, 'img, 'p, 'o, 'c, 'g) substrate \<Rightarrow> ('raw, 'img) data_source \<Rightarrow> nat \<Rightarrow>
   real \<times> real \<times> real \<Rightarrow> ('p, 'o, 'c, 'g) world \<Rightarrow> event list" where
  "training_events S val_dataset epoch metrics w =
     (let (loss, bce, GP) = metrics
      in [PrintTrain epoch loss bce GP, AddScalar ''Loss/train'' loss epoch]
         @ ood_branch_events S val_dataset epoch w)"

text \<open>The events of the set-up.\<close>

definition is_setup_event :: "config \<Rightarrow> event \<Rightarrow> bool" where
  "is_setup_event cfg e \<longleftrightarrow>
     e = SummaryWriterOpened (output_dir cfg) \<or> e = DatasetsLoaded \<or>
     e = ModelCreated WideResNet \<or> e = ModelCreated resnet18"

text \<open>The class that lines 58--61 select for a supported architecture.\<close>

definition model_class_of :: "config \<Rightarrow> model_class" where
  "model_class_of cfg = (if architecture cfg = ''WRN'' then WideResNet else resnet18)"

section \<open>Concrete instances\<close>

text \<open>
  A small concrete substrate and state on which the theorems can be evaluated: one
  score per example, input gradients of norm 0, parameters and buffers that count
  how often they were written.
\<close>

definition toy_substrate :: "(int, int, nat, nat, nat, nat) substrate" where
  "toy_substrate =
     \<lparr>new_model = (\<lambda>mc n cs mo ls g. (0, 0)),
      new_momentum = 0,
      forward = (\<lambda>p c t xs. map (\<lambda>x. [1]) xs),
      input_derivative = (\<lambda>p c t xs. map (\<lambda>x. [[[0, 0]]]) xs),
      one_hot = (\<lambda>ys n. map (\<lambda>y. map (\<lambda>k. if k = y then 1 else 0) [0..<n]) ys),
      binary_cross_entropy = (\<lambda>ps ys. 2),
      loss_gradient = (\<lambda>p c xs ys l. 1),
      accumulate = (\<lambda>old g. case old of None \<Rightarrow> g | Some a \<Rightarrow> a + g),
      sgd = (\<lambda>rate wd p buf g. (Suc p, Suc buf)),
      update_embeddings = (\<lambda>p c t xs ys. Suc c),
      argmax_accuracy = (\<lambda>ps ys. 1),
      average = (\<lambda>vs. case vs of [] \<Rightarrow> 0 | v # rest \<Rightarrow> v),
      get_cifar_svhn_ood = (\<lambda>p c. (1, 1)),
      get_auroc_classification = (\<lambda>ds p c. (1, 1))\<rparr>"

definition toy_config :: config where
  "toy_config =
     \<lparr>architecture = ''ResNet18'', batch_size = 2, epochs = 200, length_scale = 1 / 10,
      centroid_size = 512, model_output_size = 512, learning_rate = 1 / 20,
      l_gradient_penalty = 1 / 2, gamma = 999 / 1000, weight_decay = 5 / 10000,
      final_model = False, output_dir = ''results''\<rparr>"

definition toy_world :: "(nat, nat, nat, nat) world" where
  "toy_world =
     \<lparr>params = 0, momentum = 0, centroids = 0, grads = None, training = True,
      grad_enabled = True, lr = 1 / 20, last_epoch = 0, trace = []\<rparr>"

definition toy_loader :: "(int, int) data_loader" where
  "toy_loader =
     \<lparr>ld_dataset = Whole \<lparr>samples = [(10, 0), (20, 1)], transform = (\<lambda>r. r)\<rparr>,
      ld_batch_size = 2, ld_shuffle = False, ld_drop_last = False\<rparr>"

text \<open>Concrete datasets and a command line for evaluating the theorems below.\<close>

definition toy_dataset :: "(int, int) dataset" where
  "toy_dataset = \<lparr>samples = replicate 1000 (0, 0), transform = (\<lambda>r. r + 1000)\<rparr>"

definition toy_test_dataset :: "(int, int) dataset" where
  "toy_test_dataset = \<lparr>samples = replicate 200 (0, 0), transform = (\<lambda>r. r)\<rparr>"

definition toy_args :: args where
  "toy_args =
     \<lparr>arg_architecture = Some ''VGG'', arg_epochs = None, arg_batch_size = None,
      arg_centroid_size = None, arg_model_output_size = None, arg_learning_rate = None,
      arg_l_gradient_penalty = None, arg_gamma = None, arg_length_scale = None,
      arg_weight_decay = None, arg_output_dir = None, arg_final_model = False\<rparr>"

text \<open>
  A training dataset of five samples whose preprocessing adds 1000 (standing for the
  training-time augmentation) and a test dataset whose preprocessing is the identity.
\<close>

definition small_dataset :: "(int, int) dataset" where
  "small_dataset = \<lparr>samples = [(10, 0), (20, 1), (30, 2), (40, 0), (50, 1)],
                     transform = (\<lambda>r. r + 1000)\<rparr>"

definition small_test_dataset :: "(int, int) dataset" where
  "small_test_dataset = \<lparr>samples = [(60, 2)], transform = (\<lambda>r. r)\<rparr>"

section \<open>Properties\<close>

subsection \<open>Properties of the split\<close>

lemma split_final:
  "split_datasets shuffle val_size_of True dataset test_dataset = (Whole dataset, Whole test_dataset)"
  by (simp add: split_datasets_def)

lemma split_not_final:
  "split_datasets shuffle val_size_of False dataset test_dataset =
     (Subset dataset (take (val_size_of (length (samples dataset)))
                        (shuffle [0..<length (samples dataset)])) None,
      Subset dataset (drop (val_size_of (length (samples dataset)))
                        (shuffle [0..<length (samples dataset)]))
        (Some (transform test_dataset)))"
  by (simp add: split_datasets_def Let_def)

lemma take_drop_partition:
  assumes "mset idx = mset [0..<n]"
  shows "set (take k idx) \<inter> set (drop k idx) = {}"
    and "set (take k idx) \<union> set (drop k idx) = {0..<n}"
proof -
  have "distinct idx"
    using assms mset_eq_imp_distinct_iff [of idx "[0..<n]"] by simp
  then show "set (take k idx) \<inter> set (drop k idx) = {}"
    using distinct_append [of "take k idx" "drop k idx"] by simp
  have "set idx = {0..<n}"
    using assms mset_eq_setD [of idx "[0..<n]"] by simp
  then show "set (take k idx) \<union> set (drop k idx) = {0..<n}"
    using set_append [of "take k idx" "drop k idx"] by simp
qed

text \<open>
  Claim C5. In non-final-model mode the training and the validation subset draw from
  the same dataset, their index sets are disjoint and together are all indices of
  the full training dataset, whatever permutation the shuffle produced and whatever
  the split point is; in final-model mode the validation set is the test set itself.
\<close>

theorem C5_split_partition:
  assumes "mset (shuffle [0..<length (samples dataset)]) = mset [0..<length (samples dataset)]"
  shows "(let (train_dataset, val_dataset) =
              split_datasets shuffle val_size_of False dataset test_dataset
          in set (index_list train_dataset) \<inter> set (index_list val_dataset) = {}
           \<and> set (index_list train_dataset) \<union> set (index_list val_dataset)
               = {0..<length (samples dataset)}
           \<and> underlying train_dataset = dataset \<and> underlying val_dataset = dataset)
       \<and> snd (split_datasets shuffle val_size_of True dataset test_dataset) = Whole test_dataset
       \<and> fst (split_datasets shuffle val_size_of True dataset test_dataset) = Whole dataset"
  using take_drop_partition [OF assms]
  by (simp add: split_final split_not_final)

lemma small_split:
  "split_datasets rev (\<lambda>n. 4 * n div 5) False small_dataset small_test_dataset
     = (Subset small_dataset [4, 3, 2, 1] None,
        Subset small_dataset [0] (Some (transform small_test_dataset)))"
proof -
  have u: "[0..<5] = [0, 1, 2, 3, 4]" by (simp add: upt_rec)
  have n: "length (samples small_dataset) = 5" by (simp add: small_dataset_def)
  show ?thesis unfolding split_not_final n by (simp add: u)
qed

theorem C5_split_partition_witness:
  "mset (rev [0..<length (samples small_dataset)]) = mset [0..<length (samples small_dataset)]
   \<and> index_list (fst (split_datasets rev (\<lambda>n. 4 * n div 5) False small_dataset
                        small_test_dataset)) = [4, 3, 2, 1]
   \<and> index_list (snd (split_datasets rev (\<lambda>n. 4 * n div 5) False small_dataset
                        small_test_dataset)) = [0]
   \<and> set [4, 3, 2, 1] \<inter> set [0::nat] = {}
   \<and> set [4, 3, 2, 1] \<union> set [0::nat] = {0..<length (samples small_dataset)}
   \<and> snd (split_datasets rev (\<lambda>n. 4 * n div 5) True small_dataset small_test_dataset)
       = Whole small_test_dataset"
proof -
  have perm: "mset (rev [0..<length (samples small_dataset)])
      = mset [0..<length (samples small_dataset)]"
    by (rule mset_rev)
  from C5_split_partition [of rev small_dataset "\<lambda>n. 4 * n div 5" small_test_dataset, OF perm]
  have "set [4, 3, 2, 1] \<inter> set [0::nat] = {}
      \<and> set [4, 3, 2, 1] \<union> set [0::nat] = {0..<length (samples small_dataset)}
      \<and> snd (split_datasets rev (\<lambda>n. 4 * n div 5) True small_dataset small_test_dataset)
          = Whole small_test_dataset"
    unfolding small_split by (simp add: insert_commute)
  with perm show ?thesis by (simp add: small_split)
qed

subsection \<open>Preprocessing of validation examples\<close>

lemma getitem_val_dataset:
  assumes "i < length (samples dataset) - val_size_of (length (samples dataset))"
    and "mset (shuffle [0..<length (samples dataset)]) = mset [0..<length (samples dataset)]"
  shows "getitem (snd (split_datasets shuffle val_size_of False dataset test_dataset)) i
       = dataset_getitem dataset
           (drop (val_size_of (length (samples dataset))) (shuffle [0..<length (samples dataset)]) ! i)"
proof -
  have "length (shuffle [0..<length (samples dataset)]) = length (samples dataset)"
    using assms(2) mset_eq_length [of "shuffle [0..<length (samples dataset)]" "[0..<length (samples dataset)]"]
    by simp
  with assms(1) show ?thesis
    by (simp add: split_not_final)
qed

text \<open>
  Claim C1 on a run in non-final-model mode, with the small datasets above and the
  shuffle reversing the index list. The validation split holds the single index 0,
  and the attribute that line 54 assigned to it is the test-time transform. Reading
  the validation example yields the sample 10 preprocessed by the transform of the
  training dataset (1010), not by the test-time transform (10).
\<close>

theorem C1_validation_item_training_transform:
  "snd (split_datasets rev (\<lambda>n. 4 * n div 5) False small_dataset small_test_dataset)
     = Subset small_dataset [0] (Some (transform small_test_dataset))
   \<and> getitem (snd (split_datasets rev (\<lambda>n. 4 * n div 5) False small_dataset small_test_dataset)) 0
     = Inr (transform small_dataset 10, 0)
   \<and> getitem (snd (split_datasets rev (\<lambda>n. 4 * n div 5) False small_dataset small_test_dataset)) 0
     = Inr (1010, 0)
   \<and> getitem (snd (split_datasets rev (\<lambda>n. 4 * n div 5) False small_dataset small_test_dataset)) 0
     \<noteq> Inr (transform small_test_dataset 10, 0)"
  unfolding small_split
  by (simp add: dataset_getitem_def small_dataset_def small_test_dataset_def)

subsection \<open>Properties of the gradient penalty\<close>

lemma calc_gradient_penalty_tracked:
  assumes "requires_grad x" and "tracks_input y_pred"
  shows "calc_gradient_penalty x y_pred =
    Inr (tensor_mean (map (\<lambda>g. (l2_norm (flatten g) - 1)\<^sup>2) (input_grad y_pred)))"
  using assms
  by (simp add: calc_gradient_penalty_def calc_gradients_input_def autograd_grad_def comp_def)

lemma calc_gradient_penalty_untracked:
  assumes "\<not> requires_grad x"
  shows "calc_gradient_penalty x y_pred = Inl RuntimeError"
  using assms
  by (simp add: calc_gradient_penalty_def calc_gradients_input_def autograd_grad_def)

lemma tensor_mean_nonneg:
  assumes "\<And>v. v \<in> set xs \<Longrightarrow> 0 \<le> v"
  shows "0 \<le> tensor_mean xs"
proof -
  have "0 \<le> sum_list xs" using assms by (rule sum_list_nonneg)
  then show ?thesis by (simp add: tensor_mean_def)
qed

lemma tensor_mean_eq_0_iff:
  assumes "\<And>v. v \<in> set xs \<Longrightarrow> 0 \<le> v" and "xs \<noteq> []"
  shows "tensor_mean xs = 0 \<longleftrightarrow> (\<forall>v\<in>set xs. v = 0)"
proof -
  from assms(2) have "real (length xs) \<noteq> 0" by simp
  then have "tensor_mean xs = 0 \<longleftrightarrow> sum_list xs = 0"
    by (simp add: tensor_mean_def)
  also have "\<dots> \<longleftrightarrow> (\<forall>v\<in>set xs. v = 0)"
    using assms(1) by (rule sum_list_nonneg_eq_0_iff)
  finally show ?thesis .
qed

text \<open>
  Claim C3. For a batch with at least one example whose input is tracked, the value
  the regularizer returns is the mean over the examples of the squared distance
  between 1 and the L2 norm of the example's flattened input gradient; it is never
  negative, and it is 0 exactly when that norm is 1 for every example.
\<close>

theorem C3_gradient_penalty_value:
  assumes "requires_grad x" and "tracks_input y_pred" and "input_grad y_pred \<noteq> []"
  shows "\<exists>gp. calc_gradient_penalty x y_pred = Inr gp
     \<and> gp = (\<Sum>g\<leftarrow>input_grad y_pred. (l2_norm (flatten g) - 1)\<^sup>2) / real (length (input_grad y_pred))
     \<and> 0 \<le> gp
     \<and> (gp = 0 \<longleftrightarrow> (\<forall>g\<in>set (input_grad y_pred). l2_norm (flatten g) = 1))"
proof -
  let ?sq = "map (\<lambda>g. (l2_norm (flatten g) - 1)\<^sup>2) (input_grad y_pred)"
  have nonneg: "\<And>v. v \<in> set ?sq \<Longrightarrow> 0 \<le> v" by auto
  have ne: "?sq \<noteq> []" using assms(3) by simp
  have val: "calc_gradient_penalty x y_pred = Inr (tensor_mean ?sq)"
    using assms(1,2) by (rule calc_gradient_penalty_tracked)
  have formula: "tensor_mean ?sq
      = (\<Sum>g\<leftarrow>input_grad y_pred. (l2_norm (flatten g) - 1)\<^sup>2) / real (length (input_grad y_pred))"
    by (simp add: tensor_mean_def)
  have pos: "0 \<le> tensor_mean ?sq"
    using nonneg by (rule tensor_mean_nonneg)
  have "tensor_mean ?sq = 0 \<longleftrightarrow> (\<forall>v\<in>set ?sq. v = 0)"
    using nonneg ne by (rule tensor_mean_eq_0_iff)
  also have "\<dots> \<longleftrightarrow> (\<forall>g\<in>set (input_grad y_pred). l2_norm (flatten g) = 1)"
    by simp
  finally have zero: "tensor_mean ?sq = 0 \<longleftrightarrow> (\<forall>g\<in>set (input_grad y_pred). l2_norm (flatten g) = 1)" .
  from val formula pos zero show ?thesis by simp
qed

theorem C3_gradient_penalty_value_witness:
  "requires_grad \<lparr>examples = [0::int, 1], requires_grad = True\<rparr>
   \<and> tracks_input \<lparr>scores = [[1], [1]], tracks_input = True, input_grad = [[[[3, 4]]], [[[1, 0]]]]\<rparr>
   \<and> input_grad \<lparr>scores = [[1], [1]], tracks_input = True, input_grad = [[[[3, 4]]], [[[1, 0]]]]\<rparr> \<noteq> []
   \<and> calc_gradient_penalty \<lparr>examples = [0::int, 1], requires_grad = True\<rparr>
        \<lparr>scores = [[1], [1]], tracks_input = True, input_grad = [[[[3, 4]]], [[[1, 0]]]]\<rparr> = Inr 8
   \<and> l2_norm (flatten [[[3, 4]]]) = 5"
proof -
  let ?x = "\<lparr>examples = [0::int, 1], requires_grad = True\<rparr>"
  let ?y = "\<lparr>scores = [[1], [1]], tracks_input = True, input_grad = [[[[3, 4]]], [[[1, 0]]]]\<rparr>"
  have five: "l2_norm (flatten [[[3, 4]]]) = 5"
  proof -
    have "sqrt 25 = sqrt (5\<^sup>2)" by simp
    also have "\<dots> = 5" by (simp only: real_sqrt_abs abs_numeral)
    finally have "sqrt 25 = 5" .
    then show ?thesis by (simp add: l2_norm_def flatten_def)
  qed
  have one: "l2_norm (flatten [[[1, 0]]]) = 1"
    by (simp add: l2_norm_def flatten_def)
  have hyps: "requires_grad ?x" "tracks_input ?y" "input_grad ?y \<noteq> []"
    by simp_all
  from C3_gradient_penalty_value [OF hyps]
  obtain gp where "calc_gradient_penalty ?x ?y = Inr gp"
    and "gp = (\<Sum>g\<leftarrow>input_grad ?y. (l2_norm (flatten g) - 1)\<^sup>2) / real (length (input_grad ?y))"
    by blast
  then have "calc_gradient_penalty ?x ?y = Inr 8"
    by (simp add: five one)
  with five show ?thesis by simp
qed

text \<open>
  Claim C8. When the input does not carry gradient tracking, the computation of the
  input gradients and of the penalty ends with the library's error: the script
  neither catches it nor substitutes a value, so no number (in particular not 0) is
  returned.
\<close>

theorem C8_untracked_input_fails:
  assumes "\<not> requires_grad x"
  shows "calc_gradients_input x y_pred = Inl RuntimeError
     \<and> calc_gradient_penalty x y_pred = Inl RuntimeError
     \<and> (\<forall>v. calc_gradient_penalty x y_pred \<noteq> Inr v)"
  using assms
  by (simp add: calc_gradient_penalty_def calc_gradients_input_def autograd_grad_def)

theorem C8_untracked_input_fails_witness:
  "\<not> requires_grad \<lparr>examples = [0::int, 1], requires_grad = False\<rparr>
   \<and> calc_gradient_penalty \<lparr>examples = [0::int, 1], requires_grad = False\<rparr>
        \<lparr>scores = [[1], [1]], tracks_input = True, input_grad = [[[[1, 0]]], [[[1, 0]]]]\<rparr>
       = Inl RuntimeError
   \<and> calc_gradient_penalty \<lparr>examples = [0::int, 1], requires_grad = False\<rparr>
        \<lparr>scores = [[1], [1]], tracks_input = True, input_grad = [[[[1, 0]]], [[[1, 0]]]]\<rparr>
       \<noteq> Inr 0"
  using C8_untracked_input_fails [of "\<lparr>examples = [0::int, 1], requires_grad = False\<rparr>"
      "\<lparr>scores = [[1], [1]], tracks_input = True, input_grad = [[[[1, 0]]], [[[1, 0]]]]\<rparr>"]
  by simp

subsection \<open>What one step does\<close>

lemma step_result:
  assumes "grad_enabled w"
  shows "step S cfg num_classes (imgs, labels) w =
    (let y_pred = forward S (params w) (centroids w) True imgs;
         y = one_hot S labels num_classes;
         bce = binary_cross_entropy S y_pred y;
         gp = penalty_of (input_derivative S (params w) (centroids w) True imgs);
         loss = bce + l_gradient_penalty cfg * gp;
         g = accumulate S None (loss_gradient S (params w) (centroids w) imgs y (l_gradient_penalty cfg));
         updated = sgd S (lr w) (weight_decay cfg) (params w) (momentum w) (Some g)
     in (Inr (loss, bce, gp),
         w\<lparr>params := fst updated, momentum := snd updated,
           centroids := update_embeddings S (fst updated) (centroids w) False imgs y,
           grads := Some g, training := False,
           trace := trace w @ [ZeroGrad, Forward True, Backward, OptimizerStep,
                               UpdateEmbeddings False False]\<rparr>))"
  using assms
  by (simp add: step_def Let_def model_train_def optimizer_zero_grad_def cuda_def
      set_requires_grad_def model_call_def emit_def calc_gradient_penalty_tracked
      loss_backward_def optimizer_step_def no_grad_def model_update_embeddings_def
      model_eval_def penalty_of_def split_beta)

lemma eval_step_result:
  assumes "grad_enabled w"
  shows "eval_step S num_classes (imgs, labels) w =
    (let y_pred = forward S (params w) (centroids w) False imgs
     in (Inr (argmax_accuracy S y_pred labels,
              binary_cross_entropy S y_pred (one_hot S labels num_classes),
              penalty_of (input_derivative S (params w) (centroids w) False imgs)),
         w\<lparr>training := False, trace := trace w @ [Forward False]\<rparr>))"
  using assms
  by (simp add: eval_step_def Let_def cuda_def set_requires_grad_def model_call_def emit_def
      calc_gradient_penalty_tracked model_eval_def penalty_of_def)

text \<open>
  Claim C2. Called with gradient mode enabled (the engine calls it outside any
  no-gradient block), one train step succeeds and returns (loss, BCE, penalty)
  where BCE is the binary cross-entropy between the scores of the forward pass in
  training mode and the one-hot labels, the penalty is the gradient penalty of that
  forward pass, and loss = BCE + l_gradient_penalty * penalty. The call appends
  exactly the events: gradients zeroed, forward pass, backward pass, one optimizer
  step, one centroid update, in this order; the centroid update happens with
  gradient mode off and the input not tracking gradients. Parameters and momentum
  buffers are the result of that single optimizer update applied to the state at
  entry, and the centroid state is the result of the single centroid update applied
  to the centroid state at entry with the updated parameters.
\<close>

theorem C2_train_step:
  assumes "grad_enabled w"
  shows "\<exists>loss bce gp g w'.
      step S cfg num_classes (imgs, labels) w = (Inr (loss, bce, gp), w')
    \<and> bce = binary_cross_entropy S (forward S (params w) (centroids w) True imgs)
              (one_hot S labels num_classes)
    \<and> gp = penalty_of (input_derivative S (params w) (centroids w) True imgs)
    \<and> loss = bce + l_gradient_penalty cfg * gp
    \<and> trace w' = trace w @ [ZeroGrad, Forward True, Backward, OptimizerStep,
                               UpdateEmbeddings False False]
    \<and> g = accumulate S None (loss_gradient S (params w) (centroids w) imgs
              (one_hot S labels num_classes) (l_gradient_penalty cfg))
    \<and> (params w', momentum w') = sgd S (lr w) (weight_decay cfg) (params w) (momentum w) (Some g)
    \<and> centroids w' = update_embeddings S (params w') (centroids w) False imgs
              (one_hot S labels num_classes)
    \<and> grad_enabled w' \<and> lr w' = lr w \<and> last_epoch w' = last_epoch w"
  using assms by (simp add: step_result Let_def)

theorem C2_train_step_witness:
  "grad_enabled toy_world
   \<and> fst (step toy_substrate toy_config 10 ([7, 8], [3, 1]) toy_world) = Inr (5 / 2, 2, 1)
   \<and> params (snd (step toy_substrate toy_config 10 ([7, 8], [3, 1]) toy_world)) = 1
   \<and> momentum (snd (step toy_substrate toy_config 10 ([7, 8], [3, 1]) toy_world)) = 1
   \<and> centroids (snd (step toy_substrate toy_config 10 ([7, 8], [3, 1]) toy_world)) = 1
   \<and> trace (snd (step toy_substrate toy_config 10 ([7, 8], [3, 1]) toy_world))
       = [ZeroGrad, Forward True, Backward, OptimizerStep, UpdateEmbeddings False False]"
proof -
  have g: "grad_enabled toy_world" by (simp add: toy_world_def)
  have pen: "penalty_of [[[[0, 0]]], [[[0, 0]]]] = 1"
    by (simp add: penalty_of_def tensor_mean_def l2_norm_def flatten_def)
  from C2_train_step [OF g, of toy_substrate toy_config 10 "[7, 8]" "[3, 1]"]
  show ?thesis
    using g by (auto simp: toy_substrate_def toy_config_def toy_world_def pen)
qed

subsection \<open>Well-formed data sources and the batches of a loader\<close>

lemma len_index_list: "len ds = length (index_list ds)"
  by (cases ds) simp_all

lemma getitem_valid:
  assumes "valid_source ds" and "i < len ds"
  shows "getitem ds i =
    Inr (transform (underlying ds) (fst (samples (underlying ds) ! (index_list ds ! i))),
         snd (samples (underlying ds) ! (index_list ds ! i)))"
proof (cases ds)
  case (Whole d)
  with assms show ?thesis by (simp add: dataset_getitem_def)
next
  case (Subset d indices attr)
  with assms have "indices ! i < length (samples d)"
    by (simp add: valid_source_def)
  with Subset assms show ?thesis by (simp add: dataset_getitem_def)
qed

lemma collate_map_Inr: "collate (map Inr items) = Inr (map fst items, map snd items)"
  by (induction items) auto

lemma fetch_valid:
  assumes "valid_source ds" and "\<forall>i\<in>set indices. i < len ds"
  shows "\<exists>batch. collate (map (getitem ds) indices) = Inr batch"
proof -
  let ?item = "\<lambda>i. (transform (underlying ds) (fst (samples (underlying ds) ! (index_list ds ! i))),
         snd (samples (underlying ds) ! (index_list ds ! i)))"
  have "map (getitem ds) indices = map Inr (map ?item indices)"
    using assms by (simp add: getitem_valid)
  then show ?thesis by (simp only: collate_map_Inr) simp
qed

lemma batch_sampler_set:
  "set (concat (batch_sampler bs drop_last pending xs)) \<subseteq> set pending \<union> set xs"
proof (induction xs arbitrary: pending)
  case Nil
  show ?case by auto
next
  case (Cons i rest)
  have a: "set (concat (batch_sampler bs drop_last [] rest)) \<subseteq> set rest"
    using Cons.IH [of "[]"] by simp
  have b: "set (concat (batch_sampler bs drop_last (pending @ [i]) rest))
      \<subseteq> set (pending @ [i]) \<union> set rest"
    by (rule Cons.IH)
  show ?case
  proof (cases "length (pending @ [i]) = bs")
    case True
    then have "batch_sampler bs drop_last pending (i # rest)
        = (pending @ [i]) # batch_sampler bs drop_last [] rest"
      by (simp add: Let_def)
    with a show ?thesis by auto
  next
    case False
    then have "batch_sampler bs drop_last pending (i # rest)
        = batch_sampler bs drop_last (pending @ [i]) rest"
      by (simp add: Let_def)
    with b show ?thesis by auto
  qed
qed

lemma batch_sampler_keep_nonempty:
  "pending @ xs \<noteq> [] \<Longrightarrow> batch_sampler bs False pending xs \<noteq> []"
  by (induction xs arbitrary: pending) (auto simp: Let_def)

lemma batch_sampler_drop_last:
  assumes "0 < bs" and "length pending < bs"
  shows "concat (batch_sampler bs True pending xs)
       = take ((length pending + length xs) div bs * bs) (pending @ xs)
     \<and> (\<forall>b\<in>set (batch_sampler bs True pending xs). length b = bs)
     \<and> length (batch_sampler bs True pending xs) = (length pending + length xs) div bs"
  using assms(2)
proof (induction xs arbitrary: pending)
  case Nil
  then show ?case by simp
next
  case (Cons i rest)
  show ?case
  proof (cases "length (pending @ [i]) = bs")
    case True
    have ih: "concat (batch_sampler bs True [] rest) = take ((length rest) div bs * bs) rest
     \<and> (\<forall>b\<in>set (batch_sampler bs True [] rest). length b = bs)
     \<and> length (batch_sampler bs True [] rest) = (length rest) div bs"
      using Cons.IH [of "[]"] assms(1) by simp
    have e: "length pending + length (i # rest) = bs + length rest"
      using True by simp
    have "(bs + length rest) div bs = Suc (length rest div bs)"
      using assms(1) div_add_self1 [of bs "length rest"] by simp
    then have d: "(length pending + length (i # rest)) div bs = Suc (length rest div bs)"
      by (simp only: e)
    have "take (Suc (length rest div bs) * bs) ((pending @ [i]) @ rest)
       = (pending @ [i]) @ take (length rest div bs * bs) rest"
      using True by (simp only: take_append) simp
    with True ih d show ?thesis by (simp add: Let_def)
  next
    case False
    with Cons.prems have lt: "length (pending @ [i]) < bs" by simp
    from Cons.IH [OF lt] False show ?thesis by (simp add: Let_def)
  qed
qed

subsection \<open>Events of the step functions and of the out-of-distribution branch\<close>

lemma ood_epochs_append [simp]: "ood_epochs (xs @ ys) = ood_epochs xs @ ood_epochs ys"
  by (simp add: ood_epochs_def)

lemma auroc_epochs_append [simp]: "auroc_epochs (xs @ ys) = auroc_epochs xs @ auroc_epochs ys"
  by (simp add: auroc_epochs_def)

lemma step_event_no_ood: "is_step_event e \<Longrightarrow> ood_call e = [] \<and> auroc_call e = []"
  by (cases e) simp_all

lemma step_events_no_ood:
  "list_all is_step_event evs \<Longrightarrow> ood_epochs evs = [] \<and> auroc_epochs evs = []"
  by (induction evs) (auto simp: ood_epochs_def auroc_epochs_def step_event_no_ood)

lemma calc_gradient_penalty_no_graph:
  assumes "\<not> tracks_input y_pred"
  shows "calc_gradient_penalty x y_pred = Inl RuntimeError"
  using assms
  by (simp add: calc_gradient_penalty_def calc_gradients_input_def autograd_grad_def)

lemma step_failure:
  assumes "\<not> grad_enabled w"
  shows "step S cfg num_classes (imgs, labels) w =
    (Inl RuntimeError, w\<lparr>grads := None, training := True, trace := trace w @ [ZeroGrad, Forward True]\<rparr>)"
  using assms
  by (simp add: step_def Let_def model_train_def optimizer_zero_grad_def cuda_def
      set_requires_grad_def model_call_def emit_def calc_gradient_penalty_no_graph)

lemma eval_step_failure:
  assumes "\<not> grad_enabled w"
  shows "eval_step S num_classes (imgs, labels) w =
    (Inl RuntimeError, w\<lparr>training := False, trace := trace w @ [Forward False]\<rparr>)"
  using assms
  by (simp add: eval_step_def Let_def cuda_def set_requires_grad_def model_call_def emit_def
      calc_gradient_penalty_no_graph model_eval_def)

lemma step_trace:
  "\<exists>evs. trace (snd (step S cfg num_classes batch w)) = trace w @ evs \<and> list_all is_step_event evs"
proof (cases batch)
  case (Pair imgs labels)
  show ?thesis
  proof (cases "grad_enabled w")
    case True
    then show ?thesis unfolding Pair by (simp add: step_result Let_def)
  next
    case False
    then show ?thesis unfolding Pair by (simp add: step_failure)
  qed
qed

lemma eval_step_trace:
  "\<exists>evs. trace (snd (eval_step S num_classes batch w)) = trace w @ evs \<and> list_all is_step_event evs"
proof (cases batch)
  case (Pair imgs labels)
  show ?thesis
  proof (cases "grad_enabled w")
    case True
    then show ?thesis unfolding Pair by (simp add: eval_step_result Let_def)
  next
    case False
    then show ?thesis unfolding Pair by (simp add: eval_step_failure)
  qed
qed

lemma run_batches_trace:
  assumes "\<And>b v. \<exists>evs. trace (snd (process b v)) = trace v @ evs \<and> list_all is_step_event evs"
  shows "\<exists>evs. trace (snd (run_batches process ds batches w)) = trace w @ evs
           \<and> list_all is_step_event evs"
proof (induction batches arbitrary: w)
  case Nil
  show ?case by simp
next
  case (Cons indices rest)
  show ?case
  proof (cases "collate (map (getitem ds) indices)")
    case (Inl e)
    then show ?thesis by simp
  next
    case (Inr batch)
    obtain r w1 where p: "process batch w = (r, w1)" by (cases "process batch w")
    from assms [of batch w] p obtain evs1
      where e1: "trace w1 = trace w @ evs1" "list_all is_step_event evs1" by auto
    show ?thesis
    proof (cases r)
      case (Inl e)
      with Inr p e1 show ?thesis by simp
    next
      case out: (Inr out)
      obtain r2 w2 where q: "run_batches process ds rest w1 = (r2, w2)"
        by (cases "run_batches process ds rest w1")
      from Cons.IH [of w1] q obtain evs2
        where e2: "trace w2 = trace w1 @ evs2" "list_all is_step_event evs2" by auto
      have "trace (snd (run_batches process ds (indices # rest) w)) = trace w2"
        using Inr p out q by (cases r2) simp_all
      with e1 e2 show ?thesis by simp
    qed
  qed
qed

lemma run_batches_ok:
  assumes inv: "\<And>b v. I v \<Longrightarrow> \<exists>out v'. process b v = (Inr out, v') \<and> I v'"
    and "valid_source ds"
    and "\<forall>indices\<in>set batches. \<forall>i\<in>set indices. i < len ds"
    and "I w"
  shows "\<exists>outs w'. run_batches process ds batches w = (Inr outs, w') \<and> I w'
           \<and> length outs = length batches"
  using assms(3,4)
proof (induction batches arbitrary: w)
  case Nil
  then show ?case by simp
next
  case (Cons indices rest)
  from Cons.prems(1) have "\<forall>i\<in>set indices. i < len ds" by simp
  with assms(2) obtain batch where f: "collate (map (getitem ds) indices) = Inr batch"
    using fetch_valid by blast
  from inv [OF Cons.prems(2), of batch] obtain out w1
    where p: "process batch w = (Inr out, w1)" and i1: "I w1" by blast
  from Cons.prems(1) have "\<forall>indices\<in>set rest. \<forall>i\<in>set indices. i < len ds" by simp
  from Cons.IH [OF this i1] obtain outs w2
    where q: "run_batches process ds rest w1 = (Inr outs, w2)" and i2: "I w2"
      and l: "length outs = length rest" by blast
  from f p q i2 l show ?case by simp
qed

subsection \<open>Runs of the evaluator\<close>

lemma loader_indices_in_range:
  assumes "ld_shuffle ld \<Longrightarrow> set (order [0..<len (ld_dataset ld)]) \<subseteq> {0..<len (ld_dataset ld)}"
  shows "\<forall>indices\<in>set (loader_indices order ld). \<forall>i\<in>set indices. i < len (ld_dataset ld)"
proof -
  let ?xs = "if ld_shuffle ld then order [0..<len (ld_dataset ld)] else [0..<len (ld_dataset ld)]"
  have "set ?xs \<subseteq> {0..<len (ld_dataset ld)}" using assms by auto
  moreover have "set (concat (loader_indices order ld)) \<subseteq> set [] \<union> set ?xs"
    unfolding loader_indices_def by (rule batch_sampler_set)
  ultimately have "set (concat (loader_indices order ld)) \<subseteq> {0..<len (ld_dataset ld)}"
    by auto
  then show ?thesis by auto
qed

lemma same_model_emit: "same_model (emit evs w) v = same_model w v"
  by (simp add: same_model_def emit_def)

lemma evaluator_run_trace:
  "\<exists>evs. trace (snd (evaluator_run S num_classes loader w)) = trace w @ evs
         \<and> list_all is_step_event evs"
proof -
  let ?w = "emit [EvaluatorRun] w"
  let ?bs = "loader_indices (\<lambda>xs. xs) loader"
  obtain r w1 where q: "run_batches (eval_step S num_classes) (ld_dataset loader) ?bs ?w = (r, w1)"
    by (cases "run_batches (eval_step S num_classes) (ld_dataset loader) ?bs ?w")
  from run_batches_trace [of "eval_step S num_classes" "ld_dataset loader" ?bs ?w, OF eval_step_trace] q
  obtain evs where e: "trace w1 = trace ?w @ evs" "list_all is_step_event evs" by auto
  have "trace (snd (evaluator_run S num_classes loader w)) = trace w1 \<or>
        trace (snd (evaluator_run S num_classes loader w)) = trace ?w"
    using q by (cases r) (simp_all add: evaluator_run_def Let_def split: prod.splits)
  with e show ?thesis by (auto simp: emit_def)
qed

lemma evaluator_run_ok:
  fixes S :: "('raw, 'img, 'p, 'o, 'c, 'g) substrate" and w :: "('p, 'o, 'c, 'g) world"
  assumes "grad_enabled w" and "valid_source (ld_dataset loader)"
    and "loader_indices (\<lambda>xs. xs) loader \<noteq> []"
  shows "\<exists>m w' evs. evaluator_run S num_classes loader w = (Inr m, w') \<and> same_model w w'
           \<and> trace w' = trace w @ EvaluatorRun # evs \<and> list_all is_step_event evs"
proof -
  let ?w = "emit [EvaluatorRun] w"
  let ?bs = "loader_indices (\<lambda>xs. xs) loader"
  let ?I = "\<lambda>v. grad_enabled v \<and> same_model w v"
  have inv: "\<And>b v. ?I v \<Longrightarrow> \<exists>out v'. eval_step S num_classes b v = (Inr out, v') \<and> ?I v'"
  proof -
    fix b :: "'img list \<times> nat list" and v :: "('p, 'o, 'c, 'g) world"
    assume "?I v"
    then show "\<exists>out v'. eval_step S num_classes b v = (Inr out, v') \<and> ?I v'"
      using assms(1) by (cases b) (auto simp add: eval_step_result Let_def same_model_def)
  qed
  have range: "\<forall>indices\<in>set ?bs. \<forall>i\<in>set indices. i < len (ld_dataset loader)"
    by (rule loader_indices_in_range) simp
  have start: "?I ?w" using assms(1) by (simp add: emit_def same_model_def)
  from run_batches_ok [of ?I "eval_step S num_classes", OF inv assms(2) range start]
  obtain outs w1 where q: "run_batches (eval_step S num_classes) (ld_dataset loader) ?bs ?w = (Inr outs, w1)"
    and i1: "?I w1" by blast
  from run_batches_trace [of "eval_step S num_classes" "ld_dataset loader" ?bs ?w, OF eval_step_trace] q
  obtain evs where e: "trace w1 = trace ?w @ evs" "list_all is_step_event evs" by auto
  from q assms(3) have "evaluator_run S num_classes loader w =
      (Inr (average S (map (\<lambda>x. fst x) outs), average S (map (\<lambda>x. fst (snd x)) outs),
            average S (map (\<lambda>x. snd (snd x)) outs)), w1)"
    by (simp add: evaluator_run_def Let_def)
  with i1 e show ?thesis by (simp add: emit_def)
qed

subsection \<open>What the epoch hook does\<close>

lemma log_results_unfold:
  assumes "evaluator_run S num_classes val_loader
             (emit (training_events S val_dataset epoch metrics w) w) = (r, w1)"
  shows "log_results S cfg num_classes val_dataset val_loader epoch metrics w =
     (case r of
        Inl e \<Rightarrow> (Inl e, w1)
      | Inr m \<Rightarrow> (Inr (), scheduler_step (emit (validation_events cfg epoch m) w1)))"
proof (cases metrics)
  case (fields loss bce GP)
  show ?thesis
  proof (cases "195 < epoch")
    case True
    with assms fields show ?thesis
      by (cases r)
         (simp_all add: log_results_def Let_def emit_def training_events_def
            ood_branch_events_def validation_events_def split_beta)
  next
    case False
    with assms fields show ?thesis
      by (cases r)
         (simp_all add: log_results_def Let_def emit_def training_events_def
            ood_branch_events_def validation_events_def split_beta)
  qed
qed

lemma ood_epochs_training_events:
  "ood_epochs (training_events S val_dataset epoch metrics w) = (if 195 < epoch then [epoch] else [])"
  "auroc_epochs (training_events S val_dataset epoch metrics w) = (if 195 < epoch then [epoch] else [])"
  by (cases metrics; simp add: training_events_def ood_branch_events_def ood_epochs_def
        auroc_epochs_def)+

lemma ood_epochs_validation_events:
  "ood_epochs (validation_events cfg epoch m) = []"
  "auroc_epochs (validation_events cfg epoch m) = []"
  by (cases m; simp add: validation_events_def ood_epochs_def auroc_epochs_def Let_def)+

lemma log_results_ood:
  "ood_epochs (trace (snd (log_results S cfg num_classes val_dataset val_loader epoch metrics w)))
     = ood_epochs (trace w) @ (if 195 < epoch then [epoch] else [])
   \<and> auroc_epochs (trace (snd (log_results S cfg num_classes val_dataset val_loader epoch metrics w)))
     = auroc_epochs (trace w) @ (if 195 < epoch then [epoch] else [])"
proof -
  let ?w = "emit (training_events S val_dataset epoch metrics w) w"
  obtain r w1 where q: "evaluator_run S num_classes val_loader ?w = (r, w1)"
    by (cases "evaluator_run S num_classes val_loader ?w")
  from evaluator_run_trace [of S num_classes val_loader ?w] q
  obtain evs where e: "trace w1 = trace ?w @ evs" "list_all is_step_event evs" by auto
  from e(2) have quiet: "ood_epochs evs = []" "auroc_epochs evs = []"
    using step_events_no_ood by blast+
  have w1: "ood_epochs (trace w1) = ood_epochs (trace w) @ (if 195 < epoch then [epoch] else [])"
    "auroc_epochs (trace w1) = auroc_epochs (trace w) @ (if 195 < epoch then [epoch] else [])"
    using e(1) quiet by (simp_all add: emit_def ood_epochs_training_events)
  show ?thesis
  proof (cases r)
    case (Inl err)
    with w1 show ?thesis by (simp add: log_results_unfold [OF q])
  next
    case (Inr m)
    have "trace (snd (log_results S cfg num_classes val_dataset val_loader epoch metrics w))
        = trace w1 @ validation_events cfg epoch m @ [SchedulerStep]"
      using Inr by (simp add: log_results_unfold [OF q] scheduler_step_def emit_def Let_def)
    with w1 show ?thesis
      by (simp add: ood_epochs_validation_events) (simp add: ood_epochs_def auroc_epochs_def)
  qed
qed

lemma log_results_result:
  fixes S :: "('raw, 'img, 'p, 'o, 'c, 'g) substrate" and w :: "('p, 'o, 'c, 'g) world"
  assumes "grad_enabled w" and "valid_source (ld_dataset val_loader)"
    and "loader_indices (\<lambda>xs. xs) val_loader \<noteq> []"
  shows "\<exists>m evs w'.
      log_results S cfg num_classes val_dataset val_loader epoch metrics w = (Inr (), w')
    \<and> fst (evaluator_run S num_classes val_loader
             (emit (training_events S val_dataset epoch metrics w) w)) = Inr m
    \<and> trace w' = trace w @ training_events S val_dataset epoch metrics w
                 @ EvaluatorRun # evs @ validation_events cfg epoch m @ [SchedulerStep]
    \<and> list_all is_step_event evs
    \<and> last_epoch w' = Suc (last_epoch w)
    \<and> lr w' = (if Suc (last_epoch w) \<in> set [60, 120, 160] then lr w * (2 / 10) else lr w)
    \<and> params w' = params w \<and> momentum w' = momentum w \<and> centroids w' = centroids w
    \<and> grad_enabled w'"
proof -
  let ?w = "emit (training_events S val_dataset epoch metrics w) w"
  have g: "grad_enabled ?w" using assms(1) by (simp add: emit_def)
  from evaluator_run_ok [OF g assms(2,3), of S num_classes]
  obtain m w1 evs where q: "evaluator_run S num_classes val_loader ?w = (Inr m, w1)"
    and sm: "same_model ?w w1" and tr: "trace w1 = trace ?w @ EvaluatorRun # evs"
    and ev: "list_all is_step_event evs" by blast
  let ?w' = "scheduler_step (emit (validation_events cfg epoch m) w1)"
  have res: "log_results S cfg num_classes val_dataset val_loader epoch metrics w = (Inr (), ?w')"
    by (simp add: log_results_unfold [OF q])
  from sm have sm': "same_model w w1" by (simp add: same_model_emit)
  have "trace ?w' = trace w @ training_events S val_dataset epoch metrics w
                 @ EvaluatorRun # evs @ validation_events cfg epoch m @ [SchedulerStep]"
    using tr by (simp add: scheduler_step_def emit_def Let_def)
  moreover have "last_epoch ?w' = Suc (last_epoch w)"
    "lr ?w' = (if Suc (last_epoch w) \<in> set [60, 120, 160] then lr w * (2 / 10) else lr w)"
    "params ?w' = params w" "momentum ?w' = momentum w" "centroids ?w' = centroids w"
    "grad_enabled ?w'"
    using sm' assms(1) by (simp_all add: scheduler_step_def emit_def Let_def same_model_def)
  ultimately show ?thesis using res q ev by simp
qed

text \<open>
  Claim C6. Called at the completion of an epoch with gradient mode enabled and a
  validation loader that yields at least one batch of readable items, the hook
  succeeds. Its events are, in this order: the training log and, beyond epoch 195,
  the out-of-distribution branch (\<open>training_events\<close>); the run of the evaluator over the
  validation loader, which emits nothing but its own forward passes; the validation
  log, in which the loss is the evaluator's averaged BCE plus l_gradient_penalty
  times its averaged gradient penalty; and last the single step of the scheduler,
  which advances its epoch counter by one.
\<close>

theorem C6_epoch_hook:
  fixes S :: "('raw, 'img, 'p, 'o, 'c, 'g) substrate" and w :: "('p, 'o, 'c, 'g) world"
  assumes "grad_enabled w" and "valid_source (ld_dataset val_loader)"
    and "loader_indices (\<lambda>xs. xs) val_loader \<noteq> []"
  shows "\<exists>acc bce GP evs w'.
      log_results S cfg num_classes val_dataset val_loader epoch metrics w = (Inr (), w')
    \<and> fst (evaluator_run S num_classes val_loader
             (emit (training_events S val_dataset epoch metrics w) w)) = Inr (acc, bce, GP)
    \<and> trace w' = trace w @ training_events S val_dataset epoch metrics w
         @ EvaluatorRun # evs
         @ [PrintValid epoch acc (bce + l_gradient_penalty cfg * GP) bce GP,
            AddScalar ''Loss/valid'' (bce + l_gradient_penalty cfg * GP) epoch,
            AddScalar ''BCE/valid'' bce epoch,
            AddScalar ''GP/valid'' GP epoch,
            AddScalar ''Accuracy/valid'' acc epoch,
            SchedulerStep]
    \<and> list_all is_step_event evs
    \<and> last_epoch w' = Suc (last_epoch w)"
proof -
  from log_results_result [OF assms, where S = S and num_classes = num_classes and cfg = cfg
      and val_dataset = val_dataset and epoch = epoch and metrics = metrics]
  obtain m evs w' where
      r: "log_results S cfg num_classes val_dataset val_loader epoch metrics w = (Inr (), w')"
    and e: "fst (evaluator_run S num_classes val_loader
             (emit (training_events S val_dataset epoch metrics w) w)) = Inr m"
    and t: "trace w' = trace w @ training_events S val_dataset epoch metrics w
                 @ EvaluatorRun # evs @ validation_events cfg epoch m @ [SchedulerStep]"
    and q: "list_all is_step_event evs" and l: "last_epoch w' = Suc (last_epoch w)"
    by blast
  obtain acc bce GP where m: "m = (acc, bce, GP)" by (cases m)
  from t have "trace w' = trace w @ training_events S val_dataset epoch metrics w
         @ EvaluatorRun # evs
         @ [PrintValid epoch acc (bce + l_gradient_penalty cfg * GP) bce GP,
            AddScalar ''Loss/valid'' (bce + l_gradient_penalty cfg * GP) epoch,
            AddScalar ''BCE/valid'' bce epoch,
            AddScalar ''GP/valid'' GP epoch,
            AddScalar ''Accuracy/valid'' acc epoch,
            SchedulerStep]"
    by (simp add: m validation_events_def Let_def)
  with r e q l m show ?thesis by blast
qed

lemma toy_loader_indices: "loader_indices (\<lambda>xs. xs) toy_loader = [[0, 1]]"
  by (simp add: loader_indices_def toy_loader_def upt_rec)

lemma toy_loader_valid: "valid_source (ld_dataset toy_loader)"
  by (simp add: valid_source_def toy_loader_def)

theorem C6_epoch_hook_witness:
  "grad_enabled toy_world \<and> valid_source (ld_dataset toy_loader)
   \<and> loader_indices (\<lambda>xs. xs) toy_loader \<noteq> []
   \<and> fst (log_results toy_substrate toy_config 10 (ld_dataset toy_loader) toy_loader 3
            (1, 1, 1) toy_world) = Inr ()
   \<and> last_epoch (snd (log_results toy_substrate toy_config 10 (ld_dataset toy_loader) toy_loader 3
            (1, 1, 1) toy_world)) = 1"
proof -
  have g: "grad_enabled toy_world" by (simp add: toy_world_def)
  have n: "loader_indices (\<lambda>xs. xs) toy_loader \<noteq> []" by (simp add: toy_loader_indices)
  from C6_epoch_hook [OF g toy_loader_valid n, where S = toy_substrate and num_classes = 10
      and cfg = toy_config and val_dataset = "ld_dataset toy_loader" and epoch = 3
      and metrics = "(1, 1, 1)"]
  obtain w' where "log_results toy_substrate toy_config 10 (ld_dataset toy_loader) toy_loader 3
            (1, 1, 1) toy_world = (Inr (), w')" and "last_epoch w' = Suc (last_epoch toy_world)"
    by blast
  then show ?thesis using g n toy_loader_valid by (simp add: toy_world_def)
qed

subsection \<open>The training run\<close>

text \<open>
  Two facts about \<open>trainer.run\<close> with \<open>log_results\<close> as its handler, by induction over
  the epochs: whatever happens, the utilities for out-of-distribution evaluation
  are called only at epochs beyond 195; and when every pass has data, the run
  completes and they are called at each such epoch.
\<close>

lemma step_keeps:
  fixes S :: "('raw, 'img, 'p, 'o, 'c, 'g) substrate" and v :: "('p, 'o, 'c, 'g) world"
  assumes "grad_enabled v \<and> last_epoch v = n"
  shows "\<exists>out v'. step S cfg num_classes b v = (Inr out, v') \<and> (grad_enabled v' \<and> last_epoch v' = n)"
  using assms by (cases b) (simp add: step_result Let_def)

lemma trainer_epochs_ood_bound:
  "set (ood_epochs (trace (snd (trainer_epochs S cfg num_classes sampler train_loader
          (log_results S cfg num_classes val_dataset val_loader) es w))))
     \<subseteq> set (ood_epochs (trace w)) \<union> {e \<in> set es. 195 < e}
   \<and> set (auroc_epochs (trace (snd (trainer_epochs S cfg num_classes sampler train_loader
          (log_results S cfg num_classes val_dataset val_loader) es w))))
     \<subseteq> set (auroc_epochs (trace w)) \<union> {e \<in> set es. 195 < e}"
proof (induction es arbitrary: w)
  case Nil
  show ?case by simp
next
  case (Cons epoch rest)
  let ?bs = "loader_indices (sampler epoch) train_loader"
  let ?h = "log_results S cfg num_classes val_dataset val_loader"
  let ?run = "trainer_epochs S cfg num_classes sampler train_loader ?h"
  show ?case
  proof (cases "?bs = []")
    case True
    then show ?thesis by simp
  next
    case False
    let ?w0 = "emit [EpochStarted epoch] w"
    obtain r w1 where p: "run_batches (step S cfg num_classes) (ld_dataset train_loader) ?bs ?w0 = (r, w1)"
      by (cases "run_batches (step S cfg num_classes) (ld_dataset train_loader) ?bs ?w0")
    from run_batches_trace [of "step S cfg num_classes" "ld_dataset train_loader" ?bs ?w0, OF step_trace] p
    obtain evs where e: "trace w1 = trace ?w0 @ evs" "list_all is_step_event evs" by auto
    from e(2) have quiet: "ood_epochs evs = []" "auroc_epochs evs = []"
      using step_events_no_ood by blast+
    have w1: "ood_epochs (trace w1) = ood_epochs (trace w)"
      "auroc_epochs (trace w1) = auroc_epochs (trace w)"
      using e(1) quiet by (simp_all add: emit_def) (simp_all add: ood_epochs_def auroc_epochs_def)
    show ?thesis
    proof (cases r)
      case (Inl err)
      with False p w1 show ?thesis by (simp add: Let_def)
    next
      case (Inr outs)
      let ?m = "(average S (map (\<lambda>x. fst x) outs), average S (map (\<lambda>x. fst (snd x)) outs),
                 average S (map (\<lambda>x. snd (snd x)) outs))"
      obtain r2 w2 where h: "?h epoch ?m w1 = (r2, w2)" by (cases "?h epoch ?m w1")
      from log_results_ood [of S cfg num_classes val_dataset val_loader epoch ?m w1] h w1
      have w2: "ood_epochs (trace w2) = ood_epochs (trace w) @ (if 195 < epoch then [epoch] else [])"
        "auroc_epochs (trace w2) = auroc_epochs (trace w) @ (if 195 < epoch then [epoch] else [])"
        by simp_all
      show ?thesis
      proof (cases r2)
        case (Inl err)
        with False p Inr h w2 show ?thesis by (auto simp: Let_def)
      next
        case u: (Inr u)
        have "?run (epoch # rest) w = ?run rest w2"
          using False p Inr h u by (simp add: Let_def)
        with Cons.IH [of w2] w2 show ?thesis by (auto split: if_splits)
      qed
    qed
  qed
qed

lemma trainer_epochs_ok:
  fixes S :: "('raw, 'img, 'p, 'o, 'c, 'g) substrate" and w :: "('p, 'o, 'c, 'g) world"
  assumes train: "valid_source (ld_dataset train_loader)"
    and batches: "\<And>epoch. loader_indices (sampler epoch) train_loader \<noteq> []"
    and range: "\<And>epoch. set (sampler epoch [0..<len (ld_dataset train_loader)])
                  \<subseteq> {0..<len (ld_dataset train_loader)}"
    and val: "valid_source (ld_dataset val_loader)"
    and val_batches: "loader_indices (\<lambda>xs. xs) val_loader \<noteq> []"
    and "grad_enabled w"
  shows "\<exists>w'. trainer_epochs S cfg num_classes sampler train_loader
            (log_results S cfg num_classes val_dataset val_loader) es w = (Inr (), w')
     \<and> grad_enabled w'
     \<and> ood_epochs (trace w') = ood_epochs (trace w) @ filter (\<lambda>e. 195 < e) es
     \<and> auroc_epochs (trace w') = auroc_epochs (trace w) @ filter (\<lambda>e. 195 < e) es
     \<and> last_epoch w' = last_epoch w + length es"
  using assms(6)
proof (induction es arbitrary: w)
  case Nil
  then show ?case by simp
next
  case (Cons epoch rest)
  let ?bs = "loader_indices (sampler epoch) train_loader"
  let ?h = "log_results S cfg num_classes val_dataset val_loader"
  let ?run = "trainer_epochs S cfg num_classes sampler train_loader ?h"
  let ?w0 = "emit [EpochStarted epoch] w"
  let ?I = "\<lambda>v::('p, 'o, 'c, 'g) world. grad_enabled v \<and> last_epoch v = last_epoch w"
  have in_range: "\<forall>indices\<in>set ?bs. \<forall>i\<in>set indices. i < len (ld_dataset train_loader)"
    by (rule loader_indices_in_range) (rule range)
  have start: "?I ?w0" using Cons.prems by (simp add: emit_def)
  from run_batches_ok [of ?I "step S cfg num_classes", OF step_keeps train in_range start]
  obtain outs w1 where p: "run_batches (step S cfg num_classes) (ld_dataset train_loader) ?bs ?w0 = (Inr outs, w1)"
    and i1: "?I w1" by blast
  from run_batches_trace [of "step S cfg num_classes" "ld_dataset train_loader" ?bs ?w0, OF step_trace] p
  obtain evs where e: "trace w1 = trace ?w0 @ evs" "list_all is_step_event evs" by auto
  from e(2) have quiet: "ood_epochs evs = []" "auroc_epochs evs = []"
    using step_events_no_ood by blast+
  have w1: "ood_epochs (trace w1) = ood_epochs (trace w)"
    "auroc_epochs (trace w1) = auroc_epochs (trace w)"
    using e(1) quiet by (simp_all add: emit_def) (simp_all add: ood_epochs_def auroc_epochs_def)
  let ?m = "(average S (map (\<lambda>x. fst x) outs), average S (map (\<lambda>x. fst (snd x)) outs),
             average S (map (\<lambda>x. snd (snd x)) outs))"
  from i1 have g1: "grad_enabled w1" by simp
  from log_results_result [OF g1 val val_batches, where S = S and num_classes = num_classes
      and cfg = cfg and val_dataset = val_dataset and epoch = epoch and metrics = ?m]
  obtain w2 where h: "?h epoch ?m w1 = (Inr (), w2)" and g2: "grad_enabled w2"
    and l2: "last_epoch w2 = Suc (last_epoch w1)" by blast
  from log_results_ood [of S cfg num_classes val_dataset val_loader epoch ?m w1] h w1
  have w2: "ood_epochs (trace w2) = ood_epochs (trace w) @ (if 195 < epoch then [epoch] else [])"
    "auroc_epochs (trace w2) = auroc_epochs (trace w) @ (if 195 < epoch then [epoch] else [])"
    by simp_all
  have unfold: "?run (epoch # rest) w = ?run rest w2"
    using batches [of epoch] p h by (simp add: Let_def)
  from Cons.IH [OF g2] obtain w' where r: "?run rest w2 = (Inr (), w')" and g': "grad_enabled w'"
    and o': "ood_epochs (trace w') = ood_epochs (trace w2) @ filter (\<lambda>e. 195 < e) rest"
    and a': "auroc_epochs (trace w') = auroc_epochs (trace w2) @ filter (\<lambda>e. 195 < e) rest"
    and l': "last_epoch w' = last_epoch w2 + length rest" by blast
  from unfold r g' o' a' l' w2 l2 i1 show ?case by simp
qed

subsection \<open>The set-up of main\<close>

lemma split_valid:
  assumes "mset (shuffle [0..<length (samples dataset)]) = mset [0..<length (samples dataset)]"
  shows "valid_source (fst (split_datasets shuffle val_size_of fm dataset test_dataset))
       \<and> valid_source (snd (split_datasets shuffle val_size_of fm dataset test_dataset))"
proof (cases fm)
  case True
  then show ?thesis by (simp add: split_final valid_source_def)
next
  case False
  let ?idx = "shuffle [0..<length (samples dataset)]"
  have "set ?idx = {0..<length (samples dataset)}"
    using assms mset_eq_setD [of ?idx "[0..<length (samples dataset)]"] by simp
  then have "\<forall>i\<in>set ?idx. i < length (samples dataset)" by simp
  then have "\<forall>i\<in>set (take k ?idx). i < length (samples dataset)"
    "\<forall>i\<in>set (drop k ?idx). i < length (samples dataset)" for k
    by (meson in_set_takeD in_set_dropD)+
  with False show ?thesis by (simp add: split_not_final valid_source_def)
qed

lemma split_len:
  assumes "mset (shuffle [0..<length (samples dataset)]) = mset [0..<length (samples dataset)]"
  shows "len (fst (split_datasets shuffle val_size_of False dataset test_dataset))
           = min (val_size_of (length (samples dataset))) (length (samples dataset))"
    and "len (snd (split_datasets shuffle val_size_of False dataset test_dataset))
           = length (samples dataset) - val_size_of (length (samples dataset))"
proof -
  have "length (shuffle [0..<length (samples dataset)]) = length (samples dataset)"
    using assms mset_eq_length [of "shuffle [0..<length (samples dataset)]" "[0..<length (samples dataset)]"]
    by simp
  then show "len (fst (split_datasets shuffle val_size_of False dataset test_dataset))
           = min (val_size_of (length (samples dataset))) (length (samples dataset))"
    and "len (snd (split_datasets shuffle val_size_of False dataset test_dataset))
           = length (samples dataset) - val_size_of (length (samples dataset))"
    by (simp_all add: split_not_final min.commute)
qed

lemma main_setup_failure:
  assumes "main_setup S shuffle val_size_of (input_size, num_classes, dataset, test_dataset) cfg events
             = Inl (e, tr)"
  shows "\<exists>evs. tr = events @ evs \<and> list_all (is_setup_event cfg) evs"
  using assms
  by (auto simp: main_setup_def Let_def DataLoader_def is_setup_event_def split_beta
      split: if_splits option.splits sum.splits)

lemma main_setup_indivisible:
  assumes "len (snd (split_datasets shuffle val_size_of (final_model cfg) dataset test_dataset)) mod 200 \<noteq> 0
         \<or> length (samples test_dataset) mod 200 \<noteq> 0"
  shows "\<exists>e tr. main_setup S shuffle val_size_of (input_size, num_classes, dataset, test_dataset) cfg events
             = Inl (e, tr)
     \<and> ((architecture cfg = ''WRN'' \<or> architecture cfg = ''ResNet18'') \<and> 0 < batch_size cfg
          \<and> 0 < len (fst (split_datasets shuffle val_size_of (final_model cfg) dataset test_dataset))
          \<longrightarrow> e = AssertionError ''incorrect result averaging'')"
  using assms
  by (auto simp: main_setup_def Let_def DataLoader_def split_beta)

lemma main_setup_ok:
  assumes "architecture cfg = ''WRN'' \<or> architecture cfg = ''ResNet18''"
    and "0 < batch_size cfg"
    and "0 < len (fst (split_datasets shuffle val_size_of (final_model cfg) dataset test_dataset))"
    and "len (snd (split_datasets shuffle val_size_of (final_model cfg) dataset test_dataset)) mod 200 = 0"
    and "length (samples test_dataset) mod 200 = 0"
  shows "\<exists>r. main_setup S shuffle val_size_of (input_size, num_classes, dataset, test_dataset) cfg events
             = Inr r
     \<and> r_num_classes r = num_classes
     \<and> r_val_dataset r = snd (split_datasets shuffle val_size_of (final_model cfg) dataset test_dataset)
     \<and> r_train_loader r =
          \<lparr>ld_dataset = fst (split_datasets shuffle val_size_of (final_model cfg) dataset test_dataset),
           ld_batch_size = nat (batch_size cfg), ld_shuffle = True, ld_drop_last = True\<rparr>
     \<and> r_val_loader r =
          \<lparr>ld_dataset = snd (split_datasets shuffle val_size_of (final_model cfg) dataset test_dataset),
           ld_batch_size = 200, ld_shuffle = False, ld_drop_last = False\<rparr>
     \<and> r_test_loader r =
          \<lparr>ld_dataset = Whole test_dataset, ld_batch_size = 200, ld_shuffle = False,
           ld_drop_last = False\<rparr>
     \<and> grad_enabled (r_world r) \<and> last_epoch (r_world r) = 0
     \<and> lr (r_world r) = learning_rate cfg
     \<and> trace (r_world r) = events @ [SummaryWriterOpened (output_dir cfg), DatasetsLoaded,
                                       ModelCreated (model_class_of cfg)]"
  using assms
  by (auto simp: main_setup_def Let_def DataLoader_def split_beta model_class_of_def)

lemma setup_events_no_ood:
  "list_all (is_setup_event cfg) evs \<Longrightarrow> ood_epochs evs = [] \<and> auroc_epochs evs = []"
  by (induction evs) (auto simp: ood_epochs_def auroc_epochs_def is_setup_event_def)

lemma filter_late_epochs: "filter (\<lambda>e. k < e) [1..<Suc n] = [Suc k..<Suc n]"
  by (induction n) auto

lemma late_epochs_200: "filter (\<lambda>e. 195 < e) [1..<Suc 200] = [196, 197, 198, 199, 200]"
proof -
  have "[Suc 195..<Suc 200] = [196, 197, 198, 199, 200]"
    by (simp add: upt_rec)
  then show ?thesis by (simp only: filter_late_epochs)
qed

lemma main_setup_success:
  assumes "main_setup S shuffle val_size_of (input_size, num_classes, dataset, test_dataset) cfg events
             = Inr r"
  shows "\<exists>evs. trace (r_world r) = events @ evs \<and> list_all (is_setup_event cfg) evs"
  using assms
  by (auto simp: main_setup_def Let_def DataLoader_def is_setup_event_def split_beta
      split: if_splits option.splits sum.splits)

lemma drop_last_loader:
  assumes "0 < bs" and "0 < len ds" and "mset (order [0..<len ds]) = mset [0..<len ds]"
  shows "\<exists>ld. DataLoader ds bs True True = Inr ld
     \<and> concat (loader_indices order ld) = take (len ds div nat bs * nat bs) (order [0..<len ds])
     \<and> (\<forall>b\<in>set (loader_indices order ld). length b = nat bs)
     \<and> length (loader_indices order ld) = len ds div nat bs"
proof -
  let ?ld = "\<lparr>ld_dataset = ds, ld_batch_size = nat bs, ld_shuffle = True, ld_drop_last = True\<rparr>"
  have n: "length (order [0..<len ds]) = len ds"
    using assms(3) mset_eq_length [of "order [0..<len ds]" "[0..<len ds]"] by simp
  have c: "DataLoader ds bs True True = Inr ?ld"
    using assms(1,2) by (simp add: DataLoader_def)
  have "0 < nat bs" "length ([]::nat list) < nat bs" using assms(1) by simp_all
  from batch_sampler_drop_last [OF this, of "order [0..<len ds]"] n
  have "concat (loader_indices order ?ld) = take (len ds div nat bs * nat bs) (order [0..<len ds])
     \<and> (\<forall>b\<in>set (loader_indices order ?ld). length b = nat bs)
     \<and> length (loader_indices order ?ld) = len ds div nat bs"
    by (simp add: loader_indices_def)
  with c show ?thesis by blast
qed

lemma train_loader_batches:
  assumes "0 < bs" and "bs \<le> len ds" and "mset (order [0..<len ds]) = mset [0..<len ds]"
  shows "loader_indices order
           \<lparr>ld_dataset = ds, ld_batch_size = bs, ld_shuffle = True, ld_drop_last = True\<rparr> \<noteq> []"
proof -
  let ?ld = "\<lparr>ld_dataset = ds, ld_batch_size = bs, ld_shuffle = True, ld_drop_last = True\<rparr>"
  have n: "length (order [0..<len ds]) = len ds"
    using assms(3) mset_eq_length [of "order [0..<len ds]" "[0..<len ds]"] by simp
  have "0 < bs" "length ([]::nat list) < bs" using assms(1) by simp_all
  from batch_sampler_drop_last [OF this, of "order [0..<len ds]"] n
  have "length (loader_indices order ?ld) = len ds div bs"
    by (simp add: loader_indices_def)
  moreover have "0 < len ds div bs"
    using assms(1,2) by (simp add: div_greater_zero_iff)
  ultimately show ?thesis by auto
qed

lemma eval_loader_batches:
  assumes "0 < len ds"
  shows "loader_indices order
           \<lparr>ld_dataset = ds, ld_batch_size = bs, ld_shuffle = False, ld_drop_last = False\<rparr> \<noteq> []"
proof -
  have "[] @ [0..<len ds] \<noteq> []" using assms by simp
  then have "batch_sampler bs False [] [0..<len ds] \<noteq> []"
    by (rule batch_sampler_keep_nonempty)
  then show ?thesis by (simp add: loader_indices_def)
qed

lemma main_ood_bound:
  "set (ood_epochs (snd (main S shuffle val_size_of sampler
          (input_size, num_classes, dataset, test_dataset) cfg events)))
     \<subseteq> set (ood_epochs events) \<union> {e. 195 < e \<and> e \<le> epochs cfg}
   \<and> set (auroc_epochs (snd (main S shuffle val_size_of sampler
          (input_size, num_classes, dataset, test_dataset) cfg events)))
     \<subseteq> set (auroc_epochs events) \<union> {e. 195 < e \<and> e \<le> epochs cfg}"
proof (cases "main_setup S shuffle val_size_of (input_size, num_classes, dataset, test_dataset) cfg events")
  case (Inl failure)
  obtain e tr where f: "failure = (e, tr)" by (cases failure)
  from main_setup_failure [of S shuffle val_size_of input_size num_classes dataset test_dataset cfg events e tr]
    Inl f obtain evs where "tr = events @ evs" "list_all (is_setup_event cfg) evs" by auto
  then have "ood_epochs tr = ood_epochs events" "auroc_epochs tr = auroc_epochs events"
    using setup_events_no_ood [of cfg evs] by simp_all
  with Inl f show ?thesis by (simp add: main_def)
next
  case (Inr r)
  from main_setup_success [OF Inr] obtain evs
    where "trace (r_world r) = events @ evs" "list_all (is_setup_event cfg) evs" by auto
  then have w0: "ood_epochs (trace (r_world r)) = ood_epochs events"
    "auroc_epochs (trace (r_world r)) = auroc_epochs events"
    using setup_events_no_ood [of cfg evs] by simp_all
  let ?h = "log_results S cfg (r_num_classes r) (r_val_dataset r) (r_val_loader r)"
  obtain r1 w1 where t: "trainer_run S cfg (r_num_classes r) sampler (r_train_loader r) ?h
      (epochs cfg) (r_world r) = (r1, w1)"
    by (cases "trainer_run S cfg (r_num_classes r) sampler (r_train_loader r) ?h (epochs cfg) (r_world r)")
  from trainer_epochs_ood_bound [of S cfg "r_num_classes r" sampler "r_train_loader r"
      "r_val_dataset r" "r_val_loader r" "[1..<Suc (epochs cfg)]" "r_world r"] t w0
  have w1: "set (ood_epochs (trace w1)) \<subseteq> set (ood_epochs events) \<union> {e. 195 < e \<and> e \<le> epochs cfg}"
    "set (auroc_epochs (trace w1)) \<subseteq> set (auroc_epochs events) \<union> {e. 195 < e \<and> e \<le> epochs cfg}"
    by (auto simp: trainer_run_def)
  show ?thesis
  proof (cases r1)
    case (Inl err)
    with Inr t w1 show ?thesis by (simp add: main_def)
  next
    case u: (Inr u)
    obtain r2 w2 where v: "evaluator_run S (r_num_classes r) (r_test_loader r) w1 = (r2, w2)"
      by (cases "evaluator_run S (r_num_classes r) (r_test_loader r) w1")
    from evaluator_run_trace [of S "r_num_classes r" "r_test_loader r" w1] v
    obtain evs2 where "trace w2 = trace w1 @ evs2" "list_all is_step_event evs2" by auto
    then have w2: "ood_epochs (trace w2) = ood_epochs (trace w1)"
      "auroc_epochs (trace w2) = auroc_epochs (trace w1)"
      using step_events_no_ood [of evs2] by simp_all
    show ?thesis
    proof (cases r2)
      case (Inl err)
      with Inr t u v w1 w2 show ?thesis by (simp add: main_def)
    next
      case m: (Inr m)
      obtain acc bce GP where mm: "m = (acc, bce, GP)" by (cases m)
      have "snd (main S shuffle val_size_of sampler
          (input_size, num_classes, dataset, test_dataset) cfg events)
          = trace w2 @ [PrintTest acc, SaveModel (''runs/'' @ output_dir cfg @ ''/model.pt''),
                         WriterClosed]"
        using Inr t u v m mm by (simp add: main_def emit_def Let_def)
      with w1 w2 show ?thesis by (simp add: ood_epochs_def auroc_epochs_def)
    qed
  qed
qed

lemma main_ok:
  fixes S :: "('raw, 'img, 'p, 'o, 'c, 'g) substrate"
  assumes arch: "architecture cfg = ''WRN'' \<or> architecture cfg = ''ResNet18''"
    and bs: "0 < batch_size cfg"
    and train: "nat (batch_size cfg)
       \<le> len (fst (split_datasets shuffle val_size_of (final_model cfg) dataset test_dataset))"
    and val: "len (snd (split_datasets shuffle val_size_of (final_model cfg) dataset test_dataset)) mod 200 = 0"
    and val_pos: "0 < len (snd (split_datasets shuffle val_size_of (final_model cfg) dataset test_dataset))"
    and test: "length (samples test_dataset) mod 200 = 0"
    and test_pos: "0 < length (samples test_dataset)"
    and shuffle: "mset (shuffle [0..<length (samples dataset)]) = mset [0..<length (samples dataset)]"
    and sampler: "\<And>epoch xs. mset (sampler epoch xs) = mset xs"
  shows "\<exists>tr. main S shuffle val_size_of sampler
          (input_size, num_classes, dataset, test_dataset) cfg events = (Inr (), tr)
     \<and> ood_epochs tr = ood_epochs events @ filter (\<lambda>e. 195 < e) [1..<Suc (epochs cfg)]
     \<and> auroc_epochs tr = auroc_epochs events @ filter (\<lambda>e. 195 < e) [1..<Suc (epochs cfg)]"
proof -
  let ?train = "fst (split_datasets shuffle val_size_of (final_model cfg) dataset test_dataset)"
  let ?val = "snd (split_datasets shuffle val_size_of (final_model cfg) dataset test_dataset)"
  let ?tl = "\<lparr>ld_dataset = ?train, ld_batch_size = nat (batch_size cfg), ld_shuffle = True,
              ld_drop_last = True\<rparr>"
  let ?vl = "\<lparr>ld_dataset = ?val, ld_batch_size = 200, ld_shuffle = False, ld_drop_last = False\<rparr>"
  let ?el = "\<lparr>ld_dataset = Whole test_dataset, ld_batch_size = 200, ld_shuffle = False,
              ld_drop_last = False\<rparr>"
  have train_pos: "0 < len ?train" using bs train by simp
  from main_setup_ok [OF arch bs train_pos val test, of S input_size num_classes events]
  obtain r where s: "main_setup S shuffle val_size_of (input_size, num_classes, dataset, test_dataset)
       cfg events = Inr r"
    and r: "r_num_classes r = num_classes" "r_val_dataset r = ?val" "r_train_loader r = ?tl"
      "r_val_loader r = ?vl" "r_test_loader r = ?el"
    and g0: "grad_enabled (r_world r)"
    and t0: "trace (r_world r) = events @ [SummaryWriterOpened (output_dir cfg), DatasetsLoaded,
                                       ModelCreated (model_class_of cfg)]"
    by blast
  from t0 have o0: "ood_epochs (trace (r_world r)) = ood_epochs events"
    "auroc_epochs (trace (r_world r)) = auroc_epochs events"
    by (simp_all add: ood_epochs_def auroc_epochs_def)
  have valid: "valid_source ?train" "valid_source ?val"
    using split_valid [where shuffle = shuffle and dataset = dataset, OF shuffle] by blast+
  have tb: "\<And>epoch. loader_indices (sampler epoch) ?tl \<noteq> []"
    using bs train sampler by (intro train_loader_batches) simp_all
  have tr: "\<And>epoch. set (sampler epoch [0..<len (ld_dataset ?tl)]) \<subseteq> {0..<len (ld_dataset ?tl)}"
  proof -
    fix epoch
    have "set (sampler epoch [0..<len ?train]) = set [0..<len ?train]"
      using sampler [of epoch "[0..<len ?train]"] by (rule mset_eq_setD)
    then show "set (sampler epoch [0..<len (ld_dataset ?tl)]) \<subseteq> {0..<len (ld_dataset ?tl)}"
      by simp
  qed
  have vb: "loader_indices (\<lambda>xs. xs) ?vl \<noteq> []"
    using val_pos by (rule eval_loader_batches)
  have eb: "loader_indices (\<lambda>xs. xs) ?el \<noteq> []"
    using test_pos by (intro eval_loader_batches) simp
  have v1: "valid_source (ld_dataset ?tl)" "valid_source (ld_dataset ?vl)"
    using valid by simp_all
  from trainer_epochs_ok [of ?tl sampler ?vl "r_world r" S cfg num_classes ?val "[1..<Suc (epochs cfg)]",
      OF v1(1) tb tr v1(2) vb g0]
  obtain w1 where t: "trainer_run S cfg num_classes sampler ?tl
        (log_results S cfg num_classes ?val ?vl) (epochs cfg) (r_world r) = (Inr (), w1)"
    and g1: "grad_enabled w1"
    and o1: "ood_epochs (trace w1) = ood_epochs events @ filter (\<lambda>e. 195 < e) [1..<Suc (epochs cfg)]"
    and a1: "auroc_epochs (trace w1) = auroc_epochs events @ filter (\<lambda>e. 195 < e) [1..<Suc (epochs cfg)]"
    using o0 by (auto simp: trainer_run_def)
  have ve: "valid_source (ld_dataset ?el)" by (simp add: valid_source_def)
  from evaluator_run_ok [OF g1 ve eb, of S num_classes]
  obtain m w2 evs where e: "evaluator_run S num_classes ?el w1 = (Inr m, w2)"
    and t2: "trace w2 = trace w1 @ EvaluatorRun # evs" and q: "list_all is_step_event evs"
    by blast
  obtain acc bce GP where mm: "m = (acc, bce, GP)" by (cases m)
  have o2: "ood_epochs (trace w2) = ood_epochs (trace w1)"
    "auroc_epochs (trace w2) = auroc_epochs (trace w1)"
    using t2 step_events_no_ood [OF q] by (simp_all add: ood_epochs_def auroc_epochs_def)
  have "main S shuffle val_size_of sampler (input_size, num_classes, dataset, test_dataset) cfg events
      = (Inr (), trace w2 @ [PrintTest acc, SaveModel (''runs/'' @ output_dir cfg @ ''/model.pt''),
                              WriterClosed])"
    using s r t e mm by (simp add: main_def emit_def Let_def)
  moreover have "ood_epochs (trace w2 @ [PrintTest acc,
       SaveModel (''runs/'' @ output_dir cfg @ ''/model.pt''), WriterClosed]) = ood_epochs (trace w1)"
    "auroc_epochs (trace w2 @ [PrintTest acc,
       SaveModel (''runs/'' @ output_dir cfg @ ''/model.pt''), WriterClosed]) = auroc_epochs (trace w1)"
    using o2 by (simp_all add: ood_epochs_def auroc_epochs_def)
  ultimately show ?thesis using o1 a1 by simp
qed

subsection \<open>Claims about the whole program\<close>

lemma toy_split_len:
  "len (fst (split_datasets (\<lambda>xs. xs) (\<lambda>n. 4 * n div 5) False toy_dataset toy_test_dataset)) = 800"
  "len (snd (split_datasets (\<lambda>xs. xs) (\<lambda>n. 4 * n div 5) False toy_dataset toy_test_dataset)) = 200"
  by (simp_all add: split_not_final toy_dataset_def)

text \<open>
  Claim C4. With \<open>epochs = 200\<close>, whatever the outcome of \<open>main\<close>, the two utilities of the
  out-of-distribution branch are called at no epoch other than 196 to 200. In a run
  that the set-up and the engines accept (a supported architecture, a positive
  training batch size not above the size of the training split, non-empty
  validation and test sets of sizes divisible by 200, shuffles that permute), \<open>main\<close>
  completes and the branch has been executed exactly once at each of the epochs
  196, 197, 198, 199, 200, in this order.
\<close>

theorem C4_ood_branch_epochs:
  fixes S :: "('raw, 'img, 'p, 'o, 'c, 'g) substrate"
  assumes "epochs cfg = 200"
  shows "set (ood_epochs (snd (main S shuffle val_size_of sampler
            (input_size, num_classes, dataset, test_dataset) cfg events)))
       \<subseteq> set (ood_epochs events) \<union> {196, 197, 198, 199, 200}
     \<and> set (auroc_epochs (snd (main S shuffle val_size_of sampler
            (input_size, num_classes, dataset, test_dataset) cfg events)))
       \<subseteq> set (auroc_epochs events) \<union> {196, 197, 198, 199, 200}
     \<and> ((architecture cfg = ''WRN'' \<or> architecture cfg = ''ResNet18'')
        \<and> 0 < batch_size cfg
        \<and> nat (batch_size cfg)
            \<le> len (fst (split_datasets shuffle val_size_of (final_model cfg) dataset test_dataset))
        \<and> len (snd (split_datasets shuffle val_size_of (final_model cfg) dataset test_dataset)) mod 200 = 0
        \<and> 0 < len (snd (split_datasets shuffle val_size_of (final_model cfg) dataset test_dataset))
        \<and> length (samples test_dataset) mod 200 = 0
        \<and> 0 < length (samples test_dataset)
        \<and> mset (shuffle [0..<length (samples dataset)]) = mset [0..<length (samples dataset)]
        \<and> (\<forall>epoch xs. mset (sampler epoch xs) = mset xs)
        \<longrightarrow> (\<exists>tr. main S shuffle val_size_of sampler
                    (input_size, num_classes, dataset, test_dataset) cfg events = (Inr (), tr)
               \<and> ood_epochs tr = ood_epochs events @ [196, 197, 198, 199, 200]
               \<and> auroc_epochs tr = auroc_epochs events @ [196, 197, 198, 199, 200]))"
proof -
  have "{e. 195 < e \<and> e \<le> epochs cfg} = {196, 197, 198, 199, 200::nat}"
    using assms by auto
  with main_ood_bound [of S shuffle val_size_of sampler input_size num_classes dataset
      test_dataset cfg events]
  have bound: "set (ood_epochs (snd (main S shuffle val_size_of sampler
            (input_size, num_classes, dataset, test_dataset) cfg events)))
       \<subseteq> set (ood_epochs events) \<union> {196, 197, 198, 199, 200}
     \<and> set (auroc_epochs (snd (main S shuffle val_size_of sampler
            (input_size, num_classes, dataset, test_dataset) cfg events)))
       \<subseteq> set (auroc_epochs events) \<union> {196, 197, 198, 199, 200}"
    by simp
  have late: "filter (\<lambda>e. 195 < e) [1..<Suc (epochs cfg)] = [196, 197, 198, 199, 200]"
    using assms late_epochs_200 by simp
  have normal: "(architecture cfg = ''WRN'' \<or> architecture cfg = ''ResNet18'')
        \<and> 0 < batch_size cfg
        \<and> nat (batch_size cfg)
            \<le> len (fst (split_datasets shuffle val_size_of (final_model cfg) dataset test_dataset))
        \<and> len (snd (split_datasets shuffle val_size_of (final_model cfg) dataset test_dataset)) mod 200 = 0
        \<and> 0 < len (snd (split_datasets shuffle val_size_of (final_model cfg) dataset test_dataset))
        \<and> length (samples test_dataset) mod 200 = 0
        \<and> 0 < length (samples test_dataset)
        \<and> mset (shuffle [0..<length (samples dataset)]) = mset [0..<length (samples dataset)]
        \<and> (\<forall>epoch xs. mset (sampler epoch xs) = mset xs)
        \<longrightarrow> (\<exists>tr. main S shuffle val_size_of sampler
                    (input_size, num_classes, dataset, test_dataset) cfg events = (Inr (), tr)
               \<and> ood_epochs tr = ood_epochs events @ [196, 197, 198, 199, 200]
               \<and> auroc_epochs tr = auroc_epochs events @ [196, 197, 198, 199, 200])"
  proof (intro impI, elim conjE)
    assume a: "architecture cfg = ''WRN'' \<or> architecture cfg = ''ResNet18''"
      "0 < batch_size cfg"
      "nat (batch_size cfg)
            \<le> len (fst (split_datasets shuffle val_size_of (final_model cfg) dataset test_dataset))"
      "len (snd (split_datasets shuffle val_size_of (final_model cfg) dataset test_dataset)) mod 200 = 0"
      "0 < len (snd (split_datasets shuffle val_size_of (final_model cfg) dataset test_dataset))"
      "length (samples test_dataset) mod 200 = 0"
      "0 < length (samples test_dataset)"
      "mset (shuffle [0..<length (samples dataset)]) = mset [0..<length (samples dataset)]"
    assume "\<forall>epoch xs. mset (sampler epoch xs) = mset xs"
    then have s: "\<And>epoch xs. mset (sampler epoch xs) = mset xs" by simp
    from main_ok [OF a s, where S = S and input_size = input_size
        and num_classes = num_classes and events = events] late
    show "\<exists>tr. main S shuffle val_size_of sampler
                    (input_size, num_classes, dataset, test_dataset) cfg events = (Inr (), tr)
               \<and> ood_epochs tr = ood_epochs events @ [196, 197, 198, 199, 200]
               \<and> auroc_epochs tr = auroc_epochs events @ [196, 197, 198, 199, 200]"
      by simp
  qed
  show ?thesis
    by (rule conjI [OF conjunct1 [OF bound] conjI [OF conjunct2 [OF bound] normal]])
qed

theorem C4_ood_branch_epochs_witness:
  "epochs toy_config = 200
   \<and> fst (main toy_substrate (\<lambda>xs. xs) (\<lambda>n. 4 * n div 5) (\<lambda>epoch xs. xs)
            (32, 10, toy_dataset, toy_test_dataset) toy_config []) = Inr ()
   \<and> ood_epochs (snd (main toy_substrate (\<lambda>xs. xs) (\<lambda>n. 4 * n div 5) (\<lambda>epoch xs. xs)
            (32, 10, toy_dataset, toy_test_dataset) toy_config [])) = [196, 197, 198, 199, 200]
   \<and> auroc_epochs (snd (main toy_substrate (\<lambda>xs. xs) (\<lambda>n. 4 * n div 5) (\<lambda>epoch xs. xs)
            (32, 10, toy_dataset, toy_test_dataset) toy_config [])) = [196, 197, 198, 199, 200]"
proof -
  have e: "epochs toy_config = 200" by (simp add: toy_config_def)
  have hyps: "(architecture toy_config = ''WRN'' \<or> architecture toy_config = ''ResNet18'')
        \<and> 0 < batch_size toy_config
        \<and> nat (batch_size toy_config)
            \<le> len (fst (split_datasets (\<lambda>xs. xs) (\<lambda>n. 4 * n div 5) (final_model toy_config)
                       toy_dataset toy_test_dataset))
        \<and> len (snd (split_datasets (\<lambda>xs. xs) (\<lambda>n. 4 * n div 5) (final_model toy_config)
                       toy_dataset toy_test_dataset)) mod 200 = 0
        \<and> 0 < len (snd (split_datasets (\<lambda>xs. xs) (\<lambda>n. 4 * n div 5) (final_model toy_config)
                       toy_dataset toy_test_dataset))
        \<and> length (samples toy_test_dataset) mod 200 = 0
        \<and> 0 < length (samples toy_test_dataset)
        \<and> mset ((\<lambda>xs. xs) [0..<length (samples toy_dataset)]) = mset [0..<length (samples toy_dataset)]
        \<and> (\<forall>epoch xs. mset ((\<lambda>epoch xs. xs) epoch xs) = mset (xs::nat list))"
    using toy_split_len by (simp add: toy_config_def toy_test_dataset_def)
  from C4_ood_branch_epochs [OF e, where S = toy_substrate and shuffle = "\<lambda>xs. xs"
      and val_size_of = "\<lambda>n. 4 * n div 5" and sampler = "\<lambda>epoch xs. xs" and input_size = 32
      and num_classes = 10 and dataset = toy_dataset and test_dataset = toy_test_dataset
      and events = "[]"] hyps
  obtain tr where "main toy_substrate (\<lambda>xs. xs) (\<lambda>n. 4 * n div 5) (\<lambda>epoch xs. xs)
            (32, 10, toy_dataset, toy_test_dataset) toy_config [] = (Inr (), tr)"
    and "ood_epochs tr = ood_epochs [] @ [196, 197, 198, 199, 200]"
    and "auroc_epochs tr = auroc_epochs [] @ [196, 197, 198, 199, 200]"
    by blast
  with e show ?thesis by (simp add: ood_epochs_def auroc_epochs_def)
qed

lemma main_setup_fails:
  assumes "main_setup S shuffle val_size_of (input_size, num_classes, dataset, test_dataset) cfg events
             = Inl (e, tr)"
  shows "main S shuffle val_size_of sampler (input_size, num_classes, dataset, test_dataset) cfg events
             = (Inl e, tr)"
  using assms by (simp add: main_def)

text \<open>
  Called directly with an architecture that is neither of the two strings, \<open>main\<close>
  has already opened the writer and loaded the datasets when it fails.
\<close>

lemma main_unsupported_architecture:
  assumes "architecture cfg \<noteq> ''WRN''" and "architecture cfg \<noteq> ''ResNet18''"
  shows "main S shuffle val_size_of sampler (input_size, num_classes, dataset, test_dataset) cfg events
       = (Inl (UnboundLocalError ''model_class''),
          events @ [SummaryWriterOpened (output_dir cfg), DatasetsLoaded])"
  using assms by (simp add: main_def main_setup_def Let_def split_beta)

text \<open>
  With an empty training split the set-up does not reach the checks of the
  evaluation sets: the construction of the training loader fails first.
\<close>

lemma main_empty_training_split:
  assumes "architecture cfg = ''WRN'' \<or> architecture cfg = ''ResNet18''"
    and "len (fst (split_datasets shuffle val_size_of (final_model cfg) dataset test_dataset)) = 0"
  shows "main S shuffle val_size_of sampler (input_size, num_classes, dataset, test_dataset) cfg events
       = (Inl ValueError,
          events @ [SummaryWriterOpened (output_dir cfg), DatasetsLoaded,
                    ModelCreated (model_class_of cfg)])"
  using assms
  by (auto simp: main_def main_setup_def Let_def DataLoader_def split_beta model_class_of_def)

text \<open>
  Claim C7. When the size of the validation set or of the test set is not a multiple
  of the evaluation batch size, \<open>main\<close> ends with an exception after the events of the
  set-up only: no epoch has started and no step has run. When the set-up reaches the
  checks (a supported architecture, a positive training batch size and a training
  split that is not empty, so that the training loader can be built), the exception
  is the assertion failure. The training loader over a dataset that is not empty is
  built without a divisibility check: it yields \<open>len div batch_size\<close> batches, all of
  them full, which are the first \<open>len div batch_size * batch_size\<close> indices of the pass;
  the rest is dropped.
\<close>

theorem C7_indivisible_evaluation_sets:
  assumes "len (snd (split_datasets shuffle val_size_of (final_model cfg) dataset test_dataset)) mod 200 \<noteq> 0
         \<or> length (samples test_dataset) mod 200 \<noteq> 0"
  shows "(\<exists>e evs. main S shuffle val_size_of sampler
              (input_size, num_classes, dataset, test_dataset) cfg events = (Inl e, events @ evs)
          \<and> list_all (is_setup_event cfg) evs
          \<and> (\<forall>n. EpochStarted n \<notin> set evs) \<and> OptimizerStep \<notin> set evs
          \<and> ((architecture cfg = ''WRN'' \<or> architecture cfg = ''ResNet18'') \<and> 0 < batch_size cfg
               \<and> 0 < len (fst (split_datasets shuffle val_size_of (final_model cfg) dataset test_dataset))
               \<longrightarrow> e = AssertionError ''incorrect result averaging''))
     \<and> (0 < batch_size cfg \<and> 0 < len ds \<and> mset (order [0..<len ds]) = mset [0..<len ds]
          \<longrightarrow> (\<exists>ld. DataLoader ds (batch_size cfg) True True = Inr ld
                \<and> ld_drop_last ld
                \<and> length (loader_indices order ld) = len ds div nat (batch_size cfg)
                \<and> (\<forall>b\<in>set (loader_indices order ld). length b = nat (batch_size cfg))
                \<and> concat (loader_indices order ld)
                    = take (len ds div nat (batch_size cfg) * nat (batch_size cfg))
                        (order [0..<len ds])))"
proof -
  from main_setup_indivisible [OF assms, of S input_size num_classes events]
  obtain e tr where f: "main_setup S shuffle val_size_of
        (input_size, num_classes, dataset, test_dataset) cfg events = Inl (e, tr)"
    and a: "(architecture cfg = ''WRN'' \<or> architecture cfg = ''ResNet18'') \<and> 0 < batch_size cfg
          \<and> 0 < len (fst (split_datasets shuffle val_size_of (final_model cfg) dataset test_dataset))
          \<longrightarrow> e = AssertionError ''incorrect result averaging''"
    by blast
  from main_setup_failure [OF f] obtain evs
    where t: "tr = events @ evs" and s: "list_all (is_setup_event cfg) evs" by blast
  from s have n: "(\<forall>n. EpochStarted n \<notin> set evs) \<and> OptimizerStep \<notin> set evs"
    by (auto simp: list_all_iff is_setup_event_def)
  have first: "\<exists>e evs. main S shuffle val_size_of sampler
              (input_size, num_classes, dataset, test_dataset) cfg events = (Inl e, events @ evs)
          \<and> list_all (is_setup_event cfg) evs
          \<and> (\<forall>n. EpochStarted n \<notin> set evs) \<and> OptimizerStep \<notin> set evs
          \<and> ((architecture cfg = ''WRN'' \<or> architecture cfg = ''ResNet18'') \<and> 0 < batch_size cfg
               \<and> 0 < len (fst (split_datasets shuffle val_size_of (final_model cfg) dataset test_dataset))
               \<longrightarrow> e = AssertionError ''incorrect result averaging'')"
    using main_setup_fails [OF f, of sampler] t s n a by blast
  have second: "0 < batch_size cfg \<and> 0 < len ds \<and> mset (order [0..<len ds]) = mset [0..<len ds]
          \<longrightarrow> (\<exists>ld. DataLoader ds (batch_size cfg) True True = Inr ld
                \<and> ld_drop_last ld
                \<and> length (loader_indices order ld) = len ds div nat (batch_size cfg)
                \<and> (\<forall>b\<in>set (loader_indices order ld). length b = nat (batch_size cfg))
                \<and> concat (loader_indices order ld)
                    = take (len ds div nat (batch_size cfg) * nat (batch_size cfg))
                        (order [0..<len ds]))"
  proof (intro impI, elim conjE)
    assume b: "0 < batch_size cfg" and ne: "0 < len ds"
      and p: "mset (order [0..<len ds]) = mset [0..<len ds]"
    from drop_last_loader [where order = order and ds = ds, OF b ne p] obtain ld
      where l: "DataLoader ds (batch_size cfg) True True = Inr ld"
        and r: "concat (loader_indices order ld)
                  = take (len ds div nat (batch_size cfg) * nat (batch_size cfg)) (order [0..<len ds])"
          "\<forall>b\<in>set (loader_indices order ld). length b = nat (batch_size cfg)"
          "length (loader_indices order ld) = len ds div nat (batch_size cfg)"
      by blast
    from l b ne have "ld_drop_last ld" by (auto simp: DataLoader_def)
    with l r show "\<exists>ld. DataLoader ds (batch_size cfg) True True = Inr ld
                \<and> ld_drop_last ld
                \<and> length (loader_indices order ld) = len ds div nat (batch_size cfg)
                \<and> (\<forall>b\<in>set (loader_indices order ld). length b = nat (batch_size cfg))
                \<and> concat (loader_indices order ld)
                    = take (len ds div nat (batch_size cfg) * nat (batch_size cfg))
                        (order [0..<len ds])"
      by blast
  qed
  show ?thesis by (rule conjI [OF first second])
qed

theorem C7_indivisible_evaluation_sets_witness:
  "len (snd (split_datasets rev (\<lambda>n. 4 * n div 5) (final_model toy_config) small_dataset
               toy_test_dataset)) mod 200 \<noteq> 0
   \<and> main toy_substrate rev (\<lambda>n. 4 * n div 5) (\<lambda>epoch xs. xs)
        (32, 10, small_dataset, toy_test_dataset) toy_config []
       = (Inl (AssertionError ''incorrect result averaging''),
          [SummaryWriterOpened ''results'', DatasetsLoaded, ModelCreated resnet18])
   \<and> 0 < batch_size toy_config
   \<and> 0 < len (fst (split_datasets rev (\<lambda>n. 4 * n div 5) (final_model toy_config) small_dataset
                   toy_test_dataset))
   \<and> 0 < len (Whole small_dataset)
   \<and> mset (rev [0..<len (Whole small_dataset)]) = mset [0..<len (Whole small_dataset)]
   \<and> DataLoader (Whole small_dataset) (batch_size toy_config) True True
       = Inr \<lparr>ld_dataset = Whole small_dataset, ld_batch_size = 2, ld_shuffle = True,
              ld_drop_last = True\<rparr>
   \<and> loader_indices rev \<lparr>ld_dataset = Whole small_dataset, ld_batch_size = 2, ld_shuffle = True,
              ld_drop_last = True\<rparr> = [[4, 3], [2, 1]]"
proof -
  have u: "[0..<5] = [0, 1, 2, 3, 4]" by (simp add: upt_rec)
  have h: "len (snd (split_datasets rev (\<lambda>n. 4 * n div 5) (final_model toy_config) small_dataset
               toy_test_dataset)) mod 200 \<noteq> 0
         \<or> length (samples toy_test_dataset) mod 200 \<noteq> 0"
    by (simp add: toy_config_def split_not_final small_dataset_def)
  have m: "main toy_substrate rev (\<lambda>n. 4 * n div 5) (\<lambda>epoch xs. xs)
        (32, 10, small_dataset, toy_test_dataset) toy_config []
       = (Inl (AssertionError ''incorrect result averaging''),
          [SummaryWriterOpened ''results'', DatasetsLoaded, ModelCreated resnet18])"
    by (simp add: main_def main_setup_def Let_def toy_config_def split_not_final small_dataset_def
        DataLoader_def toy_substrate_def)
  have l: "loader_indices rev \<lparr>ld_dataset = Whole small_dataset, ld_batch_size = 2, ld_shuffle = True,
              ld_drop_last = True\<rparr> = [[4, 3], [2, 1]]"
    by (simp add: loader_indices_def small_dataset_def u)
  from C7_indivisible_evaluation_sets [OF h, where S = toy_substrate and sampler = "\<lambda>epoch xs. xs"
      and input_size = 32 and num_classes = 10 and events = "[]" and order = rev
      and ds = "Whole small_dataset"]
  have "0 < batch_size toy_config \<and> 0 < len (Whole small_dataset)
       \<and> mset (rev [0..<len (Whole small_dataset)]) = mset [0..<len (Whole small_dataset)]
     \<longrightarrow> (\<exists>ld. DataLoader (Whole small_dataset) (batch_size toy_config) True True = Inr ld
                \<and> ld_drop_last ld)"
    by blast
  then show ?thesis using h m l
    by (simp add: toy_config_def DataLoader_def split_not_final small_dataset_def)
qed

text \<open>
  Claim C10. Whenever the set-up reaches the loaders (a supported architecture, a
  positive training batch size and a training split that is not empty, so that the
  training loader can be built), the validation loader and the test loader have
  batch size 200, whatever \<open>batch_size\<close> is configured; the configured value is the
  batch size of the training loader only. The set-up then succeeds exactly when the
  sizes of the validation set and of the test set are multiples of 200, and fails
  with the assertion otherwise.
\<close>

theorem C10_evaluation_batch_size:
  assumes "architecture cfg = ''WRN'' \<or> architecture cfg = ''ResNet18''"
    and "0 < batch_size cfg"
    and "0 < len (fst (split_datasets shuffle val_size_of (final_model cfg) dataset test_dataset))"
  shows "(if len (snd (split_datasets shuffle val_size_of (final_model cfg) dataset test_dataset)) mod 200 = 0
            \<and> length (samples test_dataset) mod 200 = 0
          then \<exists>r. main_setup S shuffle val_size_of (input_size, num_classes, dataset, test_dataset)
                      cfg events = Inr r
                 \<and> ld_batch_size (r_val_loader r) = 200
                 \<and> ld_batch_size (r_test_loader r) = 200
                 \<and> int (ld_batch_size (r_train_loader r)) = batch_size cfg
                 \<and> ld_dataset (r_val_loader r)
                     = snd (split_datasets shuffle val_size_of (final_model cfg) dataset test_dataset)
                 \<and> ld_dataset (r_test_loader r) = Whole test_dataset
                 \<and> ld_dataset (r_train_loader r)
                     = fst (split_datasets shuffle val_size_of (final_model cfg) dataset test_dataset)
          else \<exists>tr. main_setup S shuffle val_size_of (input_size, num_classes, dataset, test_dataset)
                      cfg events = Inl (AssertionError ''incorrect result averaging'', tr))"
proof (cases "len (snd (split_datasets shuffle val_size_of (final_model cfg) dataset test_dataset)) mod 200 = 0
            \<and> length (samples test_dataset) mod 200 = 0")
  case True
  then have v: "len (snd (split_datasets shuffle val_size_of (final_model cfg) dataset test_dataset)) mod 200 = 0"
    and t: "length (samples test_dataset) mod 200 = 0" by simp_all
  from main_setup_ok [OF assms v t, of S input_size num_classes events] assms(2) True
  show ?thesis by auto
next
  case False
  then have "len (snd (split_datasets shuffle val_size_of (final_model cfg) dataset test_dataset)) mod 200 \<noteq> 0
         \<or> length (samples test_dataset) mod 200 \<noteq> 0" by simp
  from main_setup_indivisible [OF this, of S input_size num_classes events] assms False
  show ?thesis by auto
qed

theorem C10_evaluation_batch_size_witness:
  "(architecture toy_config = ''WRN'' \<or> architecture toy_config = ''ResNet18'')
   \<and> 0 < batch_size toy_config
   \<and> 0 < len (fst (split_datasets (\<lambda>xs. xs) (\<lambda>n. 4 * n div 5) (final_model toy_config)
                   toy_dataset toy_test_dataset))
   \<and> batch_size toy_config = 2
   \<and> (\<exists>r. main_setup toy_substrate (\<lambda>xs. xs) (\<lambda>n. 4 * n div 5)
              (32, 10, toy_dataset, toy_test_dataset) toy_config [] = Inr r
         \<and> ld_batch_size (r_val_loader r) = 200 \<and> ld_batch_size (r_test_loader r) = 200
         \<and> int (ld_batch_size (r_train_loader r)) = 2)"
proof -
  have a: "architecture toy_config = ''WRN'' \<or> architecture toy_config = ''ResNet18''"
    and b: "0 < batch_size toy_config" and c: "batch_size toy_config = 2"
    and f: "final_model toy_config = False"
    by (simp_all add: toy_config_def)
  have d: "len (snd (split_datasets (\<lambda>xs. xs) (\<lambda>n. 4 * n div 5) (final_model toy_config)
              toy_dataset toy_test_dataset)) mod 200 = 0
         \<and> length (samples toy_test_dataset) mod 200 = 0"
    using toy_split_len by (simp add: f toy_test_dataset_def)
  have t: "0 < len (fst (split_datasets (\<lambda>xs. xs) (\<lambda>n. 4 * n div 5) (final_model toy_config)
                   toy_dataset toy_test_dataset))"
    using toy_split_len by (simp add: f)
  from C10_evaluation_batch_size [OF a b t, where S = toy_substrate and input_size = 32
      and num_classes = 10 and events = "[]"] d
  have "\<exists>r. main_setup toy_substrate (\<lambda>xs. xs) (\<lambda>n. 4 * n div 5)
              (32, 10, toy_dataset, toy_test_dataset) toy_config [] = Inr r
         \<and> ld_batch_size (r_val_loader r) = 200 \<and> ld_batch_size (r_test_loader r) = 200
         \<and> int (ld_batch_size (r_train_loader r)) = 2"
    by (simp add: c) blast
  with a b c t show ?thesis by blast
qed

text \<open>
  Claim C9. Started from the command line with an architecture that is not one of
  the two choices, the program ends in the argument parser: it prints the usage
  error and exits with status 2. \<open>main\<close> is not called, so no event of the set-up (the
  writer, the datasets, the model) has happened.
\<close>

theorem C9_unsupported_architecture:
  assumes "arg_architecture a = Some s" and "s \<noteq> ''ResNet18''" and "s \<noteq> ''WRN''"
  shows "program S shuffle val_size_of sampler ds a
       = (Inl (SystemExit 2), [UsageError s])
     \<and> (\<forall>cfg. \<not> list_ex (is_setup_event cfg) (snd (program S shuffle val_size_of sampler ds a)))"
  using assms by (simp add: program_def parse_args_def is_setup_event_def or_default_def)

theorem C9_unsupported_architecture_witness:
  "arg_architecture toy_args = Some ''VGG'' \<and> ''VGG'' \<noteq> ''ResNet18'' \<and> ''VGG'' \<noteq> ''WRN''
   \<and> program toy_substrate (\<lambda>xs. xs) (\<lambda>n. 4 * n div 5) (\<lambda>epoch xs. xs)
        (32, 10, toy_dataset, toy_test_dataset) toy_args
       = (Inl (SystemExit 2), [UsageError ''VGG''])"
proof -
  have a: "arg_architecture toy_args = Some ''VGG''" by (simp add: toy_args_def)
  have b: "''VGG'' \<noteq> ''ResNet18''" and c: "''VGG'' \<noteq> ''WRN''" by simp_all
  from C9_unsupported_architecture [OF a b c, where S = toy_substrate and shuffle = "\<lambda>xs. xs"
      and val_size_of = "\<lambda>n. 4 * n div 5" and sampler = "\<lambda>epoch xs. xs"
      and ds = "(32, 10, toy_dataset, toy_test_dataset)"]
  show ?thesis using a b c by blast
qed

end
